theory Spec2Isabelle
  imports Complex_Main
begin

section \<open>The graph document of api/models/kGraph.js\<close>

text \<open>
  One KGraph document per user holds the nodes and the edges. Sub-document identifiers
  (\<open>_id\<close>, an ObjectId) are kept in their string form, which is what the source compares
  (\<open>n._id.toString()\<close>). JavaScript numbers are idealised as rationals: the only
  arithmetic of the module is the multiplication of a coordinate by 250.
\<close>

type_synonym userId = string

record node =
  node_id :: string
  node_content :: string
  node_label :: "string list"
  node_x :: rat
  node_y :: rat
  node_source_message_id :: "string option"
  node_source_conversation_id :: "string option"
  node_updatedAt :: "nat option"

record edge =
  edge_id :: string
  edge_source :: string
  edge_target :: string
  edge_label :: "string list"

record graph =
  nodes :: "node list"
  edges :: "edge list"

text \<open>
  The \<open>label\<close> argument of the node and edge operations is either absent, a single
  string or an array of strings.
\<close>

datatype label_input = LUndefined | LString string | LArray "string list"

text \<open>
  The scratch nodes that the Message model attaches to a conversation message, as
  \<open>importNodes\<close> reads them.
\<close>

record message_node =
  mn_id :: string
  mn_content :: "string option"
  mn_label :: "string option"
  mn_x :: "rat option"
  mn_y :: "rat option"
  isCurated :: bool

record message =
  messageId :: "string option"
  conversationId :: "string option"
  user :: userId
  message_nodes :: "message_node list option"

subsection \<open>Errors, peer requests and the log\<close>

datatype operation =
    GetGraph | CreateNode | UpdateNode | ImportNodes | DeleteNodes
  | CreateEdge | UpdateEdge | DeleteEdge | ClearGraph
  | GetRecommendations | CalculateCluster

text \<open>
  \<open>TypeError\<close> is what the engine throws on a property access through \<open>null\<close> or
  \<open>undefined\<close>; \<open>PeerError\<close> is the rejection of an \<open>axios.post\<close>; \<open>CastError\<close> is
  what the document store throws when a value of a query cannot be cast to the type of
  its path; \<open>Error m\<close> is \<open>new Error(m)\<close>; \<open>Failure op e\<close> is the error that the outer
  \<open>catch\<close> of operation \<open>op\<close> builds from the caught error \<open>e\<close> (a fixed prefix followed
  by \<open>e.message\<close>).
\<close>

datatype error = TypeError | PeerError | CastError | Error string | Failure operation error

datatype endpoint = EmbedNode | EmbedEdge | EmbedDelete | EmbedReset | CalculateUmap

datatype payload =
    NodesPayload userId "(string \<times> string) list"
  | EdgesPayload userId "(string \<times> string \<times> string \<times> label_input) list"
  | IdsPayload userId "string list"
  | UserPayload userId

text \<open>
  A request to the embedding/clustering peer: the URL, the body and the two axios
  options the source sets, the timeout in milliseconds (\<open>None\<close> when the option is not
  given) and the Authorization header.
\<close>

record peer_call =
  url :: endpoint
  body :: payload
  timeout :: "nat option"
  authorization :: "string option"

datatype 'a response = Resolved 'a | Rejected

record umap_item =
  item_id :: string
  item_x :: rat
  item_y :: rat

text \<open>
  Of the log, the model keeps the report of a caught error (the \<open>logger.error\<close> of a
  \<open>catch\<close> block) and the warning of \<open>calculateCluster\<close> for an unknown node;
  informational lines are left out.
\<close>

datatype log_entry = CaughtError operation error | NodeNotFound userId string

record world =
  kgraphs :: "userId \<rightharpoonup> graph"
  messages :: "message list"
  calls :: "peer_call list"
  logged :: "log_entry list"

subsection \<open>Asynchronous code as a state and exception monad\<close>

text \<open>
  An \<open>async\<close> function is a function of the world that returns either the thrown error
  or the value, together with the world it leaves. The document store itself is assumed
  not to fail.
\<close>

type_synonym 'a prog = "world \<Rightarrow> (error + 'a) \<times> world"

definition preturn :: "'a \<Rightarrow> 'a prog" where
  "preturn a w = (Inr a, w)"

definition pthrow :: "error \<Rightarrow> 'a prog" where
  "pthrow e w = (Inl e, w)"

definition pbind :: "'a prog \<Rightarrow> ('a \<Rightarrow> 'b prog) \<Rightarrow> 'b prog" where
  "pbind m f w = (case m w of (Inl e, w') \<Rightarrow> (Inl e, w') | (Inr a, w') \<Rightarrow> f a w')"

definition ptry :: "'a prog \<Rightarrow> (error \<Rightarrow> 'a prog) \<Rightarrow> 'a prog" where
  "ptry m h w = (case m w of (Inl e, w') \<Rightarrow> h e w' | (Inr a, w') \<Rightarrow> (Inr a, w'))"

definition logger :: "log_entry \<Rightarrow> unit prog" where
  "logger l w = (Inr (), w\<lparr>logged := logged w @ [l]\<rparr>)"

definition findOne :: "userId \<Rightarrow> graph option prog" where
  "findOne u w = (Inr (kgraphs w u), w)"

definition save :: "userId \<Rightarrow> graph \<Rightarrow> unit prog" where
  "save u g w = (Inr (), w\<lparr>kgraphs := (kgraphs w)(u \<mapsto> g)\<rparr>)"

definition deleteOne :: "userId \<Rightarrow> unit prog" where
  "deleteOne u w = (Inr (), w\<lparr>kgraphs := (kgraphs w)(u := None)\<rparr>)"

text \<open>
  \<open>$pull\<close> on the user's document: the matching array elements are removed; nothing
  happens when the user has no document. The condition arrives here already cast.
\<close>

definition pull_nodes :: "userId \<Rightarrow> (node \<Rightarrow> bool) \<Rightarrow> graph option prog" where
  "pull_nodes u P w =
     (case kgraphs w u of
        None \<Rightarrow> (Inr None, w)
      | Some g \<Rightarrow>
          (let g' = g\<lparr>nodes := filter (\<lambda>n. \<not> P n) (nodes g)\<rparr>
           in (Inr (Some g'), w\<lparr>kgraphs := (kgraphs w)(u \<mapsto> g')\<rparr>)))"

definition pull_edges :: "userId \<Rightarrow> (edge \<Rightarrow> bool) \<Rightarrow> unit prog" where
  "pull_edges u P w =
     (case kgraphs w u of
        None \<Rightarrow> (Inr (), w)
      | Some g \<Rightarrow>
          (Inr (), w\<lparr>kgraphs := (kgraphs w)(u \<mapsto> g\<lparr>edges := filter (\<lambda>e. \<not> P e) (edges g)\<rparr>)\<rparr>))"

text \<open>
  \<open>axios.post\<close>: the request is recorded, and the promise resolves with the data or
  rejects, as the peer decides.
\<close>

definition axios_post :: "peer_call \<Rightarrow> 'a response \<Rightarrow> 'a prog" where
  "axios_post c r w =
     (case r of Resolved d \<Rightarrow> Inr d | Rejected \<Rightarrow> Inl PeerError, w\<lparr>calls := calls w @ [c]\<rparr>)"

definition truthy :: "string option \<Rightarrow> bool" where
  "truthy v = (case v of None \<Rightarrow> False | Some s \<Rightarrow> s \<noteq> [])"

definition headers :: "string option \<Rightarrow> string option" where
  "headers authHeader = (if truthy authHeader then authHeader else None)"

definition or_null :: "string option \<Rightarrow> string option" where
  "or_null v = (if truthy v then v else None)"

definition getOrCreateGraphDoc :: "userId \<Rightarrow> graph prog" where
  "getOrCreateGraphDoc userId =
     pbind (findOne userId) (\<lambda>found.
       case found of
         Some graph \<Rightarrow> preturn graph
       | None \<Rightarrow>
           pbind (save userId \<lparr>nodes = [], edges = []\<rparr>) (\<lambda>_.
             preturn \<lparr>nodes = [], edges = []\<rparr>))"

text \<open>\<open>graph.nodes.id(i)\<close>: the first sub-document with that identifier.\<close>

definition nodes_id :: "node list \<Rightarrow> string \<Rightarrow> node option" where
  "nodes_id ns i = find (\<lambda>n. node_id n = i) ns"

text \<open>
  A sub-document found by \<open>find\<close> or \<open>id\<close> is mutated in place: the first element that
  satisfies the predicate is the one that changes.
\<close>

fun update_first :: "('a \<Rightarrow> bool) \<Rightarrow> ('a \<Rightarrow> 'a) \<Rightarrow> 'a list \<Rightarrow> 'a list" where
  "update_first P f [] = []"
| "update_first P f (a # as) = (if P a then f a # as else a # update_first P f as)"

definition touch :: "string \<Rightarrow> nat \<Rightarrow> node list \<Rightarrow> node list" where
  "touch i now ns = update_first (\<lambda>n. node_id n = i) (\<lambda>n. n\<lparr>node_updatedAt := Some now\<rparr>) ns"

definition nodesForResponse :: "node list \<Rightarrow> string \<Rightarrow> string \<Rightarrow> node list" where
  "nodesForResponse ns source target =
     (case nodes_id ns source of None \<Rightarrow> [] | Some n \<Rightarrow> [n]) @
     (case nodes_id ns target of None \<Rightarrow> [] | Some n \<Rightarrow> [n])"

subsection \<open>Edges\<close>

definition normalize_label :: "label_input \<Rightarrow> string list" where
  "normalize_label label =
     (case label of
        LArray xs \<Rightarrow> xs
      | LString s \<Rightarrow> (if s \<noteq> [] then [s] else [])
      | LUndefined \<Rightarrow> [])"

text \<open>The loop of \<open>createEdge\<close> over the new labels, pushing those not yet included.\<close>

fun merge_labels :: "string list \<Rightarrow> string list \<Rightarrow> string list" where
  "merge_labels acc [] = acc"
| "merge_labels acc (l # ls) = merge_labels (if l \<in> set acc then acc else acc @ [l]) ls"

definition same_pair :: "string \<Rightarrow> string \<Rightarrow> edge \<Rightarrow> bool" where
  "same_pair source target e \<longleftrightarrow> edge_source e = source \<and> edge_target e = target"

text \<open>\<open>label || ''\<close> of the edge payload.\<close>

definition label_or_empty :: "label_input \<Rightarrow> label_input" where
  "label_or_empty label =
     (case label of LUndefined \<Rightarrow> LString [] | LString s \<Rightarrow> LString s | LArray xs \<Rightarrow> LArray xs)"

definition embed_edge_call ::
  "userId \<Rightarrow> string \<Rightarrow> string \<Rightarrow> string \<Rightarrow> label_input \<Rightarrow> string option \<Rightarrow> peer_call" where
  "embed_edge_call userId eid source target label authHeader =
     \<lparr>url = EmbedEdge, body = EdgesPayload userId [(eid, source, target, label)],
      timeout = Some 15000, authorization = headers authHeader\<rparr>"

definition createEdge ::
  "userId \<Rightarrow> string \<Rightarrow> string \<Rightarrow> label_input \<Rightarrow> string option \<Rightarrow> string \<Rightarrow> nat \<Rightarrow>
   unit response \<Rightarrow> (edge \<times> node list) prog" where
  "createEdge userId source target label authHeader newId now peer =
     ptry
       (pbind (getOrCreateGraphDoc userId) (\<lambda>graph.
          let found = find (same_pair source target) (edges graph);
              labelArr = normalize_label label;
              edges' =
                (case found of
                   Some _ \<Rightarrow>
                     update_first (same_pair source target)
                       (\<lambda>e. e\<lparr>edge_label := merge_labels (edge_label e) labelArr\<rparr>) (edges graph)
                 | None \<Rightarrow>
                     edges graph @
                     [\<lparr>edge_id = newId, edge_source = source, edge_target = target,
                       edge_label = labelArr\<rparr>]);
              e' =
                (case found of
                   Some e \<Rightarrow> e\<lparr>edge_label := merge_labels (edge_label e) labelArr\<rparr>
                 | None \<Rightarrow>
                     \<lparr>edge_id = newId, edge_source = source, edge_target = target,
                      edge_label = labelArr\<rparr>);
              nodes' = touch target now (touch source now (nodes graph))
          in pbind (save userId \<lparr>nodes = nodes', edges = edges'\<rparr>) (\<lambda>_.
             pbind (ptry
                      (axios_post
                         (embed_edge_call userId (edge_id e') source target
                            (label_or_empty label) authHeader) peer)
                      (\<lambda>embedErr. logger (CaughtError CreateEdge embedErr))) (\<lambda>_.
             preturn (e', nodesForResponse nodes' source target)))))
       (\<lambda>error.
          pbind (logger (CaughtError CreateEdge error)) (\<lambda>_.
            pthrow (Failure CreateEdge error)))"

text \<open>The replacement of \<open>updateEdge\<close>: array, string, anything else.\<close>

definition replace_label :: "label_input \<Rightarrow> string list" where
  "replace_label label =
     (case label of LArray xs \<Rightarrow> xs | LString s \<Rightarrow> [s] | LUndefined \<Rightarrow> [])"

text \<open>\<open>(Array.isArray(label) ? label[0] : label) || ''\<close> of the edge payload.\<close>

definition first_label_or_empty :: "label_input \<Rightarrow> label_input" where
  "first_label_or_empty label =
     (case label of
        LArray xs \<Rightarrow> LString (case xs of [] \<Rightarrow> [] | a # _ \<Rightarrow> a)
      | LString s \<Rightarrow> LString s
      | LUndefined \<Rightarrow> LString [])"

definition updateEdge ::
  "userId \<Rightarrow> string \<Rightarrow> string \<Rightarrow> label_input \<Rightarrow> string option \<Rightarrow> nat \<Rightarrow>
   unit response \<Rightarrow> (edge \<times> node list) prog" where
  "updateEdge userId source target label authHeader now peer =
     ptry
       (pbind (getOrCreateGraphDoc userId) (\<lambda>graph.
          case find (same_pair source target) (edges graph) of
            None \<Rightarrow> pthrow TypeError
          | Some e \<Rightarrow>
              (let edges' =
                     update_first (same_pair source target)
                       (\<lambda>e. e\<lparr>edge_label := replace_label label\<rparr>) (edges graph);
                   e' = e\<lparr>edge_label := replace_label label\<rparr>;
                   nodes' = touch target now (touch source now (nodes graph))
               in pbind (save userId \<lparr>nodes = nodes', edges = edges'\<rparr>) (\<lambda>_.
                  pbind (ptry
                           (axios_post
                              (embed_edge_call userId (edge_id e') source target
                                 (first_label_or_empty label) authHeader) peer)
                           (\<lambda>embedErr. logger (CaughtError UpdateEdge embedErr))) (\<lambda>_.
                  preturn (e', nodesForResponse nodes' source target))))))
       (\<lambda>error.
          pbind (logger (CaughtError UpdateEdge error)) (\<lambda>_.
            pthrow (Failure UpdateEdge error)))"

definition embed_delete_call :: "userId \<Rightarrow> string list \<Rightarrow> string option \<Rightarrow> peer_call" where
  "embed_delete_call userId ids authHeader =
     \<lparr>url = EmbedDelete, body = IdsPayload userId ids,
      timeout = Some 15000, authorization = headers authHeader\<rparr>"

definition deleteEdge ::
  "userId \<Rightarrow> string \<Rightarrow> string \<Rightarrow> string option \<Rightarrow> nat \<Rightarrow> unit response \<Rightarrow> nat prog" where
  "deleteEdge userId source target authHeader now peer =
     ptry
       (pbind (getOrCreateGraphDoc userId) (\<lambda>graph.
          case find (same_pair source target) (edges graph) of
            None \<Rightarrow> pthrow TypeError
          | Some e \<Rightarrow>
              (let edgeId = edge_id e;
                   nodes' = touch target now (touch source now (nodes graph));
                   edges' = filter (\<lambda>x. edge_id x \<noteq> edge_id e) (edges graph)
               in pbind (save userId \<lparr>nodes = nodes', edges = edges'\<rparr>) (\<lambda>_.
                  pbind (ptry
                           (axios_post (embed_delete_call userId [edgeId] authHeader) peer)
                           (\<lambda>embedErr. logger (CaughtError DeleteEdge embedErr))) (\<lambda>_.
                  preturn 1)))))
       (\<lambda>error.
          pbind (logger (CaughtError DeleteEdge error)) (\<lambda>_.
            pthrow (Failure DeleteEdge error)))"

definition clearGraph :: "userId \<Rightarrow> string option \<Rightarrow> unit response \<Rightarrow> bool prog" where
  "clearGraph userId authHeader peer =
     ptry
       (pbind (deleteOne userId) (\<lambda>_.
        pbind (ptry
                 (axios_post
                    \<lparr>url = EmbedReset, body = UserPayload userId,
                     timeout = Some 15000, authorization = headers authHeader\<rparr> peer)
                 (\<lambda>embedErr. logger (CaughtError ClearGraph embedErr))) (\<lambda>_.
        preturn True)))
       (\<lambda>error.
          pbind (logger (CaughtError ClearGraph error)) (\<lambda>_. pthrow error))"

subsection \<open>Nodes\<close>

record node_data =
  d_label :: label_input
  d_x :: "rat option"
  d_y :: "rat option"
  d_content :: "string option"
  d_source_message_id :: "string option"
  d_source_conversation_id :: "string option"

definition embed_node_call ::
  "userId \<Rightarrow> (string \<times> string) list \<Rightarrow> string option \<Rightarrow> peer_call" where
  "embed_node_call userId ns authHeader =
     \<lparr>url = EmbedNode, body = NodesPayload userId ns,
      timeout = Some 15000, authorization = headers authHeader\<rparr>"

text \<open>
  The identifier of the pushed sub-document is chosen by the document store; it is the
  argument \<open>newId\<close>.
\<close>

definition createNode ::
  "userId \<Rightarrow> node_data \<Rightarrow> string option \<Rightarrow> string \<Rightarrow> unit response \<Rightarrow> node prog" where
  "createNode userId d authHeader newId peer =
     ptry
       (pbind (getOrCreateGraphDoc userId) (\<lambda>graph.
          let newNode =
                \<lparr>node_id = newId,
                 node_content = (case d_content d of None \<Rightarrow> [] | Some c \<Rightarrow> c),
                 node_label = normalize_label (d_label d),
                 node_x = (case d_x d of None \<Rightarrow> 0 | Some v \<Rightarrow> v),
                 node_y = (case d_y d of None \<Rightarrow> 0 | Some v \<Rightarrow> v),
                 node_source_message_id = or_null (d_source_message_id d),
                 node_source_conversation_id = or_null (d_source_conversation_id d),
                 node_updatedAt = None\<rparr>
          in pbind (save userId (graph\<lparr>nodes := nodes graph @ [newNode]\<rparr>)) (\<lambda>_.
             pbind (ptry
                      (axios_post
                         (embed_node_call userId [(node_id newNode, node_content newNode)]
                            authHeader) peer)
                      (\<lambda>embedErr. logger (CaughtError CreateNode embedErr))) (\<lambda>_.
             preturn newNode))))
       (\<lambda>error.
          pbind (logger (CaughtError CreateNode error)) (\<lambda>_.
            pthrow (Failure CreateNode error)))"

text \<open>
  The partial update of \<open>updateNode\<close>: a field is supplied when it is not
  \<open>undefined\<close>; the two provenance fields may be supplied as \<open>null\<close>.
\<close>

record node_update =
  u_label :: label_input
  u_labels :: label_input
  u_x :: "rat option"
  u_y :: "rat option"
  u_content :: "string option"
  u_source_message_id :: "string option option"
  u_source_conversation_id :: "string option option"

definition wrap_label :: "label_input \<Rightarrow> string list \<Rightarrow> string list" where
  "wrap_label label old =
     (case label of LArray xs \<Rightarrow> xs | LString s \<Rightarrow> [s] | LUndefined \<Rightarrow> old)"

definition apply_update :: "node_update \<Rightarrow> node \<Rightarrow> node" where
  "apply_update u n =
     n\<lparr>node_label :=
         (if u_labels u \<noteq> LUndefined then wrap_label (u_labels u) (node_label n)
          else wrap_label (u_label u) (node_label n)),
       node_x := (case u_x u of None \<Rightarrow> node_x n | Some v \<Rightarrow> v),
       node_y := (case u_y u of None \<Rightarrow> node_y n | Some v \<Rightarrow> v),
       node_content := (case u_content u of None \<Rightarrow> node_content n | Some c \<Rightarrow> c),
       node_source_message_id :=
         (case u_source_message_id u of None \<Rightarrow> node_source_message_id n | Some v \<Rightarrow> v),
       node_source_conversation_id :=
         (case u_source_conversation_id u of
            None \<Rightarrow> node_source_conversation_id n | Some v \<Rightarrow> v)\<rparr>"

definition supplies_field :: "node_update \<Rightarrow> bool" where
  "supplies_field u \<longleftrightarrow>
     u_labels u \<noteq> LUndefined \<or> u_label u \<noteq> LUndefined \<or> u_x u \<noteq> None \<or> u_y u \<noteq> None \<or>
     u_content u \<noteq> None \<or> u_source_message_id u \<noteq> None \<or>
     u_source_conversation_id u \<noteq> None"

text \<open>
  When \<open>graph.nodes.id(nodeId)\<close> is \<open>null\<close> the source goes on: the first assignment
  to a field of \<open>node\<close> throws, and with no field supplied \<open>node.toObject()\<close> throws
  after the save.
\<close>

definition updateNode ::
  "userId \<Rightarrow> string \<Rightarrow> node_update \<Rightarrow> string option \<Rightarrow> unit response \<Rightarrow> node prog" where
  "updateNode userId nodeId u authHeader peer =
     ptry
       (pbind (getOrCreateGraphDoc userId) (\<lambda>graph.
          case nodes_id (nodes graph) nodeId of
            None \<Rightarrow>
              (if supplies_field u then pthrow TypeError
               else pbind (save userId graph) (\<lambda>_. pthrow TypeError))
          | Some n \<Rightarrow>
              (let updatedNode = apply_update u n;
                   nodes' =
                     update_first (\<lambda>n. node_id n = nodeId) (apply_update u) (nodes graph)
               in pbind (save userId (graph\<lparr>nodes := nodes'\<rparr>)) (\<lambda>_.
                  pbind (if u_content u \<noteq> None
                         then ptry
                                (axios_post
                                   (embed_node_call userId
                                      [(node_id updatedNode, node_content updatedNode)]
                                      authHeader) peer)
                                (\<lambda>embedErr. logger (CaughtError UpdateNode embedErr))
                         else preturn ()) (\<lambda>_.
                  preturn updatedNode)))))
       (\<lambda>error.
          pbind (logger (CaughtError UpdateNode error)) (\<lambda>_.
            pthrow (Failure UpdateNode error)))"

subsection \<open>Import from messages\<close>

text \<open>
  \<open>Message.find({'nodes._id': {$in: nodeIds}, user: userId})\<close>: the messages of the
  user that carry one of the requested scratch nodes.
\<close>

definition nodes_of :: "message \<Rightarrow> message_node list" where
  "nodes_of m = (case message_nodes m of None \<Rightarrow> [] | Some ns \<Rightarrow> ns)"

definition holds_candidate :: "string list \<Rightarrow> userId \<Rightarrow> message \<Rightarrow> bool" where
  "holds_candidate nodeIds userId m \<longleftrightarrow>
     user m = userId \<and> (\<exists>n \<in> set (nodes_of m). mn_id n \<in> set nodeIds)"

definition Message_find :: "string list \<Rightarrow> userId \<Rightarrow> message list prog" where
  "Message_find nodeIds userId w = (Inr (filter (holds_candidate nodeIds userId) (messages w)), w)"

text \<open>The default content of an imported node, a Korean phrase, as UTF-8 bytes.\<close>

definition new_node_text :: string where
  "new_node_text =
     [CHR 0xEC, CHR 0x83, CHR 0x88, CHR 0x20, CHR 0xEB, CHR 0x85, CHR 0xB8,
      CHR 0xEB, CHR 0x93, CHR 0x9C]"

text \<open>\<open>v || d\<close> on strings.\<close>

definition or_else :: "string option \<Rightarrow> string \<Rightarrow> string" where
  "or_else v d = (case v of None \<Rightarrow> d | Some s \<Rightarrow> (if s \<noteq> [] then s else d))"

definition candidate_node :: "message \<Rightarrow> message_node \<Rightarrow> node" where
  "candidate_node m n =
     \<lparr>node_id = [],
      node_content = or_else (mn_content n) (or_else (mn_label n) new_node_text),
      node_label =
        (case mn_label n of None \<Rightarrow> [] | Some l \<Rightarrow> (if l \<noteq> [] then [l] else [])),
      node_x = (case mn_x n of None \<Rightarrow> 0 | Some v \<Rightarrow> v),
      node_y = (case mn_y n of None \<Rightarrow> 0 | Some v \<Rightarrow> v),
      node_source_message_id = messageId m,
      node_source_conversation_id = conversationId m,
      node_updatedAt = None\<rparr>"

definition candidates :: "string list \<Rightarrow> message \<Rightarrow> node list" where
  "candidates nodeIds m =
     map (candidate_node m) (filter (\<lambda>n. mn_id n \<in> set nodeIds) (nodes_of m))"

definition curate :: "string list \<Rightarrow> message \<Rightarrow> message" where
  "curate nodeIds m =
     m\<lparr>message_nodes :=
         map_option
           (map (\<lambda>n. if mn_id n \<in> set nodeIds then n\<lparr>isCurated := True\<rparr> else n))
           (message_nodes m)\<rparr>"

text \<open>Saving the messages found, with their requested nodes marked as curated.\<close>

definition save_messages :: "string list \<Rightarrow> userId \<Rightarrow> unit prog" where
  "save_messages nodeIds userId w =
     (Inr (),
      w\<lparr>messages :=
          map (\<lambda>m. if holds_candidate nodeIds userId m then curate nodeIds m else m)
            (messages w)\<rparr>)"

text \<open>
  The identifiers of the pushed sub-documents are chosen by the document store: the
  \<open>k\<close>-th new node gets \<open>newId k\<close>.
\<close>

definition assign_ids :: "(nat \<Rightarrow> string) \<Rightarrow> node list \<Rightarrow> node list" where
  "assign_ids newId ns = map (\<lambda>(k, n). n\<lparr>node_id := newId k\<rparr>) (enumerate 0 ns)"

text \<open>\<open>xs.slice(-n)\<close>: the last \<open>n\<close> elements, and the whole array when \<open>n\<close> is 0.\<close>

definition slice_last :: "nat \<Rightarrow> 'a list \<Rightarrow> 'a list" where
  "slice_last n xs = (if n = 0 then xs else drop (length xs - n) xs)"

definition importNodes ::
  "userId \<Rightarrow> string list \<Rightarrow> string option \<Rightarrow> (nat \<Rightarrow> string) \<Rightarrow> unit response \<Rightarrow>
   node list prog" where
  "importNodes userId nodeIds authHeader newId peer =
     ptry
       (pbind (Message_find nodeIds userId) (\<lambda>found.
        pbind (getOrCreateGraphDoc userId) (\<lambda>graph.
          let newNodes = concat (map (candidates nodeIds) found);
              nodes' = nodes graph @ assign_ids newId newNodes
          in pbind (save_messages nodeIds userId) (\<lambda>_.
             pbind (save userId (graph\<lparr>nodes := nodes'\<rparr>)) (\<lambda>_.
               let addedNodes = slice_last (length newNodes) nodes'
               in pbind (ptry
                           (axios_post
                              (embed_node_call userId
                                 (map (\<lambda>n. (node_id n, node_content n)) addedNodes)
                                 authHeader) peer)
                           (\<lambda>embedErr. logger (CaughtError ImportNodes embedErr))) (\<lambda>_.
                  preturn addedNodes))))))
       (\<lambda>error.
          pbind (logger (CaughtError ImportNodes error)) (\<lambda>_.
            pthrow (Failure ImportNodes error)))"

subsection \<open>Batch deletion\<close>

text \<open>
  \<open>ObjectId(id)\<close> belongs to the driver: the argument \<open>ObjectId\<close> gives the string form
  of the identifier it builds, or \<open>None\<close> when the call throws (as the call of a class
  without \<open>new\<close> does), in which case the source keeps \<open>String(id)\<close>. So an element of
  \<open>convertedIds\<close> is an ObjectId or a string.
\<close>

datatype converted_id = AnObjectId string | AString string

definition convertedIds :: "(string \<Rightarrow> string option) \<Rightarrow> string list \<Rightarrow> converted_id list" where
  "convertedIds ObjectId nodeIds =
     map (\<lambda>i. case ObjectId i of Some h \<Rightarrow> AnObjectId h | None \<Rightarrow> AString i) nodeIds"

text \<open>\<open>String(i)\<close> of a converted identifier.\<close>

definition String_of :: "converted_id \<Rightarrow> string" where
  "String_of v = (case v of AnObjectId h \<Rightarrow> h | AString i \<Rightarrow> i)"

text \<open>
  The \<open>$pull\<close> of step 1 is on \<open>nodes._id\<close>, a path of type ObjectId: before the update is
  sent, the document store casts every element of \<open>$in\<close> to that type. An ObjectId stays
  as it is; a string is cast by \<open>castObjectId\<close>, which gives the identifier in the
  string form of the stored \<open>_id\<close>s, or \<open>None\<close> when the string is no identifier. Then the
  update is refused with a \<open>CastError\<close> and nothing is sent.
\<close>

definition cast_id :: "(string \<Rightarrow> string option) \<Rightarrow> converted_id \<Rightarrow> string option" where
  "cast_id castObjectId v = (case v of AnObjectId h \<Rightarrow> Some h | AString i \<Rightarrow> castObjectId i)"

fun cast_ids :: "(string \<Rightarrow> string option) \<Rightarrow> converted_id list \<Rightarrow> string list option" where
  "cast_ids castObjectId [] = Some []"
| "cast_ids castObjectId (v # vs) =
     (case cast_id castObjectId v of
        None \<Rightarrow> None
      | Some k \<Rightarrow>
          (case cast_ids castObjectId vs of None \<Rightarrow> None | Some ks \<Rightarrow> Some (k # ks)))"

definition pull_nodes_in ::
  "(string \<Rightarrow> string option) \<Rightarrow> userId \<Rightarrow> converted_id list \<Rightarrow> graph option prog" where
  "pull_nodes_in castObjectId u vs =
     (case cast_ids castObjectId vs of
        None \<Rightarrow> pthrow CastError
      | Some keys \<Rightarrow> pull_nodes u (\<lambda>n. node_id n \<in> set keys))"

text \<open>
  Step 2 and the request to the peer use \<open>idStrings\<close>, the strings of the converted
  identifiers: \<open>source\<close> and \<open>target\<close> are paths of type String, so nothing is cast there.
\<close>

definition deleteNodes ::
  "(string \<Rightarrow> string option) \<Rightarrow> (string \<Rightarrow> string option) \<Rightarrow> userId \<Rightarrow> string list \<Rightarrow>
   string option \<Rightarrow> unit response \<Rightarrow> nat prog" where
  "deleteNodes ObjectId castObjectId userId nodeIds authHeader peer =
     (let converted = convertedIds ObjectId nodeIds
      in ptry
           (pbind (pull_nodes_in castObjectId userId converted) (\<lambda>updated.
              let idStrings = map String_of converted
              in pbind (pull_edges userId
                          (\<lambda>e. edge_source e \<in> set idStrings \<or> edge_target e \<in> set idStrings)) (\<lambda>_.
                 pbind (ptry
                          (axios_post (embed_delete_call userId idStrings authHeader) peer)
                          (\<lambda>embedErr. logger (CaughtError DeleteNodes embedErr))) (\<lambda>_.
                 preturn (length nodeIds)))))
           (\<lambda>error.
              pbind (logger (CaughtError DeleteNodes error)) (\<lambda>_.
                pthrow (Failure DeleteNodes error))))"

subsection \<open>Reading the graph\<close>

text \<open>
  The \<open>catch\<close> of \<open>getGraph\<close> logs and falls through, so that the function then returns
  \<open>undefined\<close>: the result is an option.
\<close>

definition getGraph ::
  "userId \<Rightarrow> string option \<Rightarrow> (node list \<times> edge list) option prog" where
  "getGraph userId convId =
     ptry
       (pbind (getOrCreateGraphDoc userId) (\<lambda>graph.
          let filteredNodes =
                (if truthy convId
                 then filter (\<lambda>n. node_source_conversation_id n = convId) (nodes graph)
                 else nodes graph);
              nodeIdSet = set (map node_id filteredNodes);
              filteredEdges =
                (if truthy convId
                 then filter (\<lambda>e. edge_source e \<in> nodeIdSet \<and> edge_target e \<in> nodeIdSet)
                        (edges graph)
                 else edges graph)
          in preturn (Some (filteredNodes, filteredEdges))))
       (\<lambda>error.
          pbind (logger (CaughtError GetGraph error)) (\<lambda>_. preturn None))"

subsection \<open>Recommendations\<close>

text \<open>\<open>validMethods.join(', ')\<close>.\<close>

fun join :: "string \<Rightarrow> string list \<Rightarrow> string" where
  "join sep [] = []"
| "join sep [x] = x"
| "join sep (x # y # ys) = x @ sep @ join sep (y # ys)"

definition invalid_method :: "string \<Rightarrow> string list \<Rightarrow> string" where
  "invalid_method method validMethods =
     ''Invalid method: '' @ method @ ''. Valid methods are: '' @ join '', '' validMethods"

text \<open>
  The registry \<open>./recommendations\<close> is a parameter: \<open>strategies method\<close> is what
  \<open>recommendationStrategies[method]\<close> resolves to, and \<open>validMethods\<close> is
  \<open>Object.keys(recommendationStrategies)\<close>. A strategy is any program that returns an
  array or throws, or returns \<open>None\<close>: \<open>null\<close>, or another value that is no array, for
  which the use of the result throws the same TypeError. \<open>String\<close> is the conversion of
  an array element to a string.
\<close>

definition getRecommendations ::
  "(string \<Rightarrow> (userId \<Rightarrow> 'p \<Rightarrow> 'r list option prog) option) \<Rightarrow> string list \<Rightarrow>
   ('r \<Rightarrow> string) \<Rightarrow> userId \<Rightarrow> string \<Rightarrow> 'p \<Rightarrow> 'r list prog" where
  "getRecommendations strategies validMethods String userId method params =
     ptry
       (case strategies method of
          None \<Rightarrow> pthrow (Error (invalid_method method validMethods))
        | Some strategy \<Rightarrow>
            pbind (strategy userId params) (\<lambda>recommendations.
            pbind (getOrCreateGraphDoc userId) (\<lambda>graph.
              let nodeIdSet = set (map node_id (nodes graph));
                  filtered =
                    filter (\<lambda>i. String i \<in> nodeIdSet)
                      (case recommendations of None \<Rightarrow> [] | Some r \<Rightarrow> r)
              in case recommendations of
                   None \<Rightarrow> pthrow TypeError
                 | Some _ \<Rightarrow> preturn filtered)))
       (\<lambda>error.
          pbind (logger (CaughtError GetRecommendations error)) (\<lambda>_. preturn []))"

subsection \<open>Layout\<close>

fun update_coordinates :: "userId \<Rightarrow> umap_item list \<Rightarrow> node list \<Rightarrow> node list prog" where
  "update_coordinates userId [] ns = preturn ns"
| "update_coordinates userId (item # items) ns =
     (case nodes_id ns (item_id item) of
        Some _ \<Rightarrow>
          update_coordinates userId items
            (update_first (\<lambda>n. node_id n = item_id item)
               (\<lambda>n. n\<lparr>node_x := item_x item * 250, node_y := item_y item * 250\<rparr>) ns)
      | None \<Rightarrow>
          pbind (logger (NodeNotFound userId (item_id item))) (\<lambda>_.
            update_coordinates userId items ns))"

definition calculateCluster ::
  "userId \<Rightarrow> string option \<Rightarrow> umap_item list response \<Rightarrow> umap_item list prog" where
  "calculateCluster userId authHeader peer =
     ptry
       (pbind (axios_post
                 \<lparr>url = CalculateUmap, body = UserPayload userId,
                  timeout = None, authorization = headers authHeader\<rparr> peer) (\<lambda>umapData.
        pbind (getOrCreateGraphDoc userId) (\<lambda>graph.
        pbind (update_coordinates userId umapData (nodes graph)) (\<lambda>nodes'.
        pbind (save userId (graph\<lparr>nodes := nodes'\<rparr>)) (\<lambda>_.
        preturn umapData)))))
       (\<lambda>error.
          pbind (logger (CaughtError CalculateCluster error)) (\<lambda>_.
            pthrow (Failure CalculateCluster error)))"

section \<open>Notions used in the statements\<close>

text \<open>
  The document an operation works on: the stored one, or the empty document that
  \<open>getOrCreateGraphDoc\<close> creates.
\<close>

definition graph_of :: "world \<Rightarrow> userId \<Rightarrow> graph" where
  "graph_of w u = (case kgraphs w u of None \<Rightarrow> \<lparr>nodes = [], edges = []\<rparr> | Some g \<Rightarrow> g)"

definition peer_log :: "operation \<Rightarrow> 'a response \<Rightarrow> log_entry list" where
  "peer_log op peer = (case peer of Resolved _ \<Rightarrow> [] | Rejected \<Rightarrow> [CaughtError op PeerError])"

definition edge_pair :: "edge \<Rightarrow> string \<times> string" where
  "edge_pair e = (edge_source e, edge_target e)"

text \<open>At most one edge for an ordered pair of endpoints.\<close>

definition unique_pairs :: "graph \<Rightarrow> bool" where
  "unique_pairs g \<longleftrightarrow> distinct (map edge_pair (edges g))"

definition createEdge_edges ::
  "string \<Rightarrow> string \<Rightarrow> label_input \<Rightarrow> string \<Rightarrow> edge list \<Rightarrow> edge list" where
  "createEdge_edges source target label newId es =
     (case find (same_pair source target) es of
        Some _ \<Rightarrow>
          update_first (same_pair source target)
            (\<lambda>e. e\<lparr>edge_label := merge_labels (edge_label e) (normalize_label label)\<rparr>) es
      | None \<Rightarrow>
          es @ [\<lparr>edge_id = newId, edge_source = source, edge_target = target,
                 edge_label = normalize_label label\<rparr>])"

definition created_node :: "node_data \<Rightarrow> string \<Rightarrow> node" where
  "created_node d newId =
     \<lparr>node_id = newId,
      node_content = (case d_content d of None \<Rightarrow> [] | Some c \<Rightarrow> c),
      node_label = normalize_label (d_label d),
      node_x = (case d_x d of None \<Rightarrow> 0 | Some v \<Rightarrow> v),
      node_y = (case d_y d of None \<Rightarrow> 0 | Some v \<Rightarrow> v),
      node_source_message_id = or_null (d_source_message_id d),
      node_source_conversation_id = or_null (d_source_conversation_id d),
      node_updatedAt = None\<rparr>"

definition imported :: "world \<Rightarrow> userId \<Rightarrow> string list \<Rightarrow> node list" where
  "imported w userId nodeIds =
     concat (map (candidates nodeIds) (filter (holds_candidate nodeIds userId) (messages w)))"

definition scaled :: "umap_item \<Rightarrow> node \<Rightarrow> node" where
  "scaled item n = n\<lparr>node_x := item_x item * 250, node_y := item_y item * 250\<rparr>"

text \<open>The coordinates after the loop of \<open>calculateCluster\<close>, without its warnings.\<close>

fun place :: "umap_item list \<Rightarrow> node list \<Rightarrow> node list" where
  "place [] ns = ns"
| "place (item # items) ns =
     place items (update_first (\<lambda>n. node_id n = item_id item) (scaled item) ns)"

text \<open>The item of a layout response that decides a node: the last one with its id.\<close>

definition last_item :: "umap_item list \<Rightarrow> string \<Rightarrow> umap_item option" where
  "last_item items i = find (\<lambda>item. item_id item = i) (rev items)"

definition placed :: "umap_item list \<Rightarrow> node \<Rightarrow> node" where
  "placed items n = (case last_item items (node_id n) of None \<Rightarrow> n | Some item \<Rightarrow> scaled item n)"

text \<open>
  Two runs agree for the caller and for the stores: the same result, the same graph
  documents and the same messages.
\<close>

definition same_outcome :: "(error + 'a) \<times> world \<Rightarrow> (error + 'a) \<times> world \<Rightarrow> bool" where
  "same_outcome r1 r2 \<longleftrightarrow>
     fst r1 = fst r2 \<and> kgraphs (snd r1) = kgraphs (snd r2) \<and> messages (snd r1) = messages (snd r2)"

text \<open>
  The worlds that the operations of the module build from an empty graph store.
  Recommendation strategies are code outside the module and are left out.
\<close>

inductive reachable ::
  "(string \<Rightarrow> string option) \<Rightarrow> (string \<Rightarrow> string option) \<Rightarrow> world \<Rightarrow> bool"
  for ObjectId :: "string \<Rightarrow> string option" and castObjectId :: "string \<Rightarrow> string option" where
  start:
    "reachable ObjectId castObjectId
       \<lparr>kgraphs = Map.empty, messages = ms, calls = [], logged = []\<rparr>"
| by_getGraph:
    "reachable ObjectId castObjectId w \<Longrightarrow>
     reachable ObjectId castObjectId (snd (getGraph userId convId w))"
| by_createNode:
    "reachable ObjectId castObjectId w \<Longrightarrow>
     reachable ObjectId castObjectId (snd (createNode userId d authHeader newId peer w))"
| by_updateNode:
    "reachable ObjectId castObjectId w \<Longrightarrow>
     reachable ObjectId castObjectId (snd (updateNode userId nodeId u authHeader peer w))"
| by_importNodes:
    "reachable ObjectId castObjectId w \<Longrightarrow>
     reachable ObjectId castObjectId
       (snd (importNodes userId nodeIds authHeader newIds peer w))"
| by_deleteNodes:
    "reachable ObjectId castObjectId w \<Longrightarrow>
     reachable ObjectId castObjectId
       (snd (deleteNodes ObjectId castObjectId userId nodeIds authHeader peer w))"
| by_createEdge:
    "reachable ObjectId castObjectId w \<Longrightarrow>
     reachable ObjectId castObjectId
       (snd (createEdge userId source target label authHeader newId now peer w))"
| by_updateEdge:
    "reachable ObjectId castObjectId w \<Longrightarrow>
     reachable ObjectId castObjectId
       (snd (updateEdge userId source target label authHeader now peer w))"
| by_deleteEdge:
    "reachable ObjectId castObjectId w \<Longrightarrow>
     reachable ObjectId castObjectId (snd (deleteEdge userId source target authHeader now peer w))"
| by_clearGraph:
    "reachable ObjectId castObjectId w \<Longrightarrow>
     reachable ObjectId castObjectId (snd (clearGraph userId authHeader peer w))"
| by_calculateCluster:
    "reachable ObjectId castObjectId w \<Longrightarrow>
     reachable ObjectId castObjectId (snd (calculateCluster userId authHeader umap w))"

text \<open>Every stored document has at most one edge for an ordered pair.\<close>

definition all_unique :: "world \<Rightarrow> bool" where
  "all_unique w \<longleftrightarrow> (\<forall>u g. kgraphs w u = Some g \<longrightarrow> unique_pairs g)"

text \<open>
  The requested identifiers that the \<open>$pull\<close> of \<open>deleteNodes\<close> accepts: each is
  converted by \<open>ObjectId\<close> or can be cast by the document store.
\<close>

definition castable ::
  "(string \<Rightarrow> string option) \<Rightarrow> (string \<Rightarrow> string option) \<Rightarrow> string list \<Rightarrow> bool" where
  "castable ObjectId castObjectId nodeIds \<longleftrightarrow>
     list_all (\<lambda>i. ObjectId i \<noteq> None \<or> castObjectId i \<noteq> None) nodeIds"

text \<open>
  The requested identifiers are written as the stored ones are: conversion and cast give
  each of them back.
\<close>

definition canonical ::
  "(string \<Rightarrow> string option) \<Rightarrow> (string \<Rightarrow> string option) \<Rightarrow> string list \<Rightarrow> bool" where
  "canonical ObjectId castObjectId nodeIds \<longleftrightarrow>
     list_all (\<lambda>i. case ObjectId i of Some h \<Rightarrow> h = i | None \<Rightarrow> castObjectId i = Some i) nodeIds"

text \<open>
  The registry of strategies as the object it is: its own properties in the order of
  their keys, and the members it inherits. \<open>property own inherited name\<close> is what
  \<open>recommendationStrategies[name]\<close> resolves to, and the keys of \<open>own\<close> are
  \<open>Object.keys(recommendationStrategies)\<close>.
\<close>

definition property :: "(string \<times> 's) list \<Rightarrow> (string \<Rightarrow> 's option) \<Rightarrow> string \<Rightarrow> 's option" where
  "property own inherited name =
     (case map_of own name of Some s \<Rightarrow> Some s | None \<Rightarrow> inherited name)"

text \<open>No earlier node of the list has the identifier of the node at position \<open>k\<close>.\<close>

definition first_with_id :: "node list \<Rightarrow> nat \<Rightarrow> bool" where
  "first_with_id ns k \<longleftrightarrow> (\<forall>j<k. node_id (ns ! j) \<noteq> node_id (ns ! k))"

subsection \<open>Example worlds\<close>

text \<open>
  An empty store; the store after one \<open>createEdge\<close>; and a store in which user
  \<open>u1\<close> has two nodes of two conversations, an edge between them and a loop.
\<close>

definition w_start :: world where
  "w_start = \<lparr>kgraphs = Map.empty, messages = [], calls = [], logged = []\<rparr>"

definition w_edge :: world where
  "w_edge =
     snd (createEdge ''u1'' ''A'' ''B'' (LString ''cause'') None ''e1'' 1 (Resolved ()) w_start)"

definition w_two :: world where
  "w_two =
     \<lparr>kgraphs =
        [''u1'' \<mapsto>
           \<lparr>nodes =
              [\<lparr>node_id = ''A'', node_content = ''idea1'', node_label = [], node_x = 0, node_y = 0,
                node_source_message_id = None, node_source_conversation_id = Some ''c1'',
                node_updatedAt = None\<rparr>,
               \<lparr>node_id = ''B'', node_content = ''idea2'', node_label = [], node_x = 0, node_y = 0,
                node_source_message_id = None, node_source_conversation_id = Some ''c2'',
                node_updatedAt = None\<rparr>],
            edges =
              [\<lparr>edge_id = ''e1'', edge_source = ''A'', edge_target = ''B'',
                edge_label = [''cause'', ''alt'']\<rparr>,
               \<lparr>edge_id = ''e2'', edge_source = ''B'', edge_target = ''B'',
                edge_label = [''self'']\<rparr>]\<rparr>],
      messages = [], calls = [], logged = []\<rparr>"

definition example_strategies :: "string \<Rightarrow> (userId \<Rightarrow> unit \<Rightarrow> string list option prog) option" where
  "example_strategies method =
     (if method = ''old_ones'' then Some (\<lambda>u p. preturn (Some [''B'', ''stale'', ''A'']))
      else if method = ''synonyms'' then Some (\<lambda>u p. pthrow PeerError)
      else None)"

definition node_A :: node where
  "node_A =
     \<lparr>node_id = ''A'', node_content = ''idea1'', node_label = [], node_x = 0, node_y = 0,
      node_source_message_id = None, node_source_conversation_id = Some ''c1'',
      node_updatedAt = None\<rparr>"

definition node_B :: node where
  "node_B =
     \<lparr>node_id = ''B'', node_content = ''idea2'', node_label = [], node_x = 0, node_y = 0,
      node_source_message_id = None, node_source_conversation_id = Some ''c2'',
      node_updatedAt = None\<rparr>"

definition edge_AB :: edge where
  "edge_AB =
     \<lparr>edge_id = ''e1'', edge_source = ''A'', edge_target = ''B'',
      edge_label = [''cause'', ''alt'']\<rparr>"

definition edge_BB :: edge where
  "edge_BB = \<lparr>edge_id = ''e2'', edge_source = ''B'', edge_target = ''B'', edge_label = [''self'']\<rparr>"










text \<open>
  A registry with two strategies of its own. Of the members that every object inherits,
  the example has \<open>constructor\<close>: called as a strategy it returns a wrapper object, which
  is no array.
\<close>

definition example_registry :: "(string \<times> (userId \<Rightarrow> unit \<Rightarrow> string list option prog)) list" where
  "example_registry =
     [(''old_ones'', \<lambda>u p. preturn (Some [''B'', ''stale'', ''A''])),
      (''synonyms'', \<lambda>u p. pthrow PeerError)]"

definition example_prototype :: "string \<Rightarrow> (userId \<Rightarrow> unit \<Rightarrow> string list option prog) option" where
  "example_prototype name = (if name = ''constructor'' then Some (\<lambda>u p. preturn None) else None)"

section \<open>Running the operations\<close>

lemmas prog_defs =
  pbind_def ptry_def preturn_def pthrow_def logger_def save_def findOne_def axios_post_def
  deleteOne_def

lemma graph_of_simps [simp]:
  "graph_of (w\<lparr>calls := c\<rparr>) u = graph_of w u"
  "graph_of (w\<lparr>logged := l\<rparr>) u = graph_of w u"
  "graph_of (w\<lparr>messages := ms\<rparr>) u = graph_of w u"
  by (simp_all add: graph_of_def)

lemma graph_of_stored [simp]: "graph_of (w\<lparr>kgraphs := (m(u \<mapsto> g))\<rparr>) u = g"
  by (simp add: graph_of_def)

lemma getOrCreateGraphDoc_run:
  "getOrCreateGraphDoc u w = (Inr (graph_of w u), w\<lparr>kgraphs := (kgraphs w)(u \<mapsto> graph_of w u)\<rparr>)"
proof (cases "kgraphs w u")
  case None
  then show ?thesis
    by (simp add: getOrCreateGraphDoc_def pbind_def findOne_def save_def preturn_def graph_of_def)
next
  case (Some g)
  then have "(kgraphs w)(u \<mapsto> g) = kgraphs w" by (simp add: fun_upd_idem)
  with Some show ?thesis
    by (simp add: getOrCreateGraphDoc_def pbind_def findOne_def preturn_def graph_of_def)
qed

subsection \<open>Lists\<close>

lemma merge_labels_set: "set (merge_labels acc ls) = set acc \<union> set ls"
  by (induction ls arbitrary: acc) auto

lemma merge_labels_distinct: "distinct acc \<Longrightarrow> distinct (merge_labels acc ls)"
  by (induction ls arbitrary: acc) auto

lemma remdups_append_filter:
  "remdups (xs @ ys) = remdups (filter (\<lambda>x. x \<notin> set ys) xs) @ remdups ys"
  by (induction xs) auto

lemma first_seen_Cons:
  "rev (remdups (rev (l # zs))) = l # rev (remdups (rev (filter (\<lambda>x. x \<noteq> l) zs)))"
proof -
  have "remdups (rev zs @ [l]) = remdups (filter (\<lambda>x. x \<notin> set [l]) (rev zs)) @ remdups [l]"
    by (rule remdups_append_filter)
  then show ?thesis by (simp add: rev_filter)
qed

lemma merge_labels_append:
  "merge_labels acc ls = acc @ rev (remdups (rev (filter (\<lambda>l. l \<notin> set acc) ls)))"
proof (induction ls arbitrary: acc)
  case Nil
  then show ?case by simp
next
  case (Cons l ls)
  show ?case
  proof (cases "l \<in> set acc")
    case True
    then show ?thesis using Cons.IH [of acc] by simp
  next
    case False
    have "filter (\<lambda>x. x \<noteq> l) (filter (\<lambda>x. x \<notin> set acc) ls) = filter (\<lambda>x. x \<notin> set (acc @ [l])) ls"
      by (induction ls) auto
    moreover have "rev (remdups (rev (filter (\<lambda>x. x \<notin> set acc) ls) @ [l])) =
        l # rev (remdups (rev (filter (\<lambda>x. x \<noteq> l) (filter (\<lambda>x. x \<notin> set acc) ls))))"
      using first_seen_Cons [of l "filter (\<lambda>x. x \<notin> set acc) ls"] by simp
    ultimately show ?thesis using False Cons.IH [of "acc @ [l]"] by simp
  qed
qed

lemma merge_labels_first_seen:
  assumes "distinct acc"
  shows "merge_labels acc ls = rev (remdups (rev (acc @ ls)))"
proof -
  have "remdups (rev ls @ rev acc) = remdups (filter (\<lambda>x. x \<notin> set (rev acc)) (rev ls)) @ remdups (rev acc)"
    by (rule remdups_append_filter)
  moreover have "remdups (rev acc) = rev acc" using assms by (simp add: distinct_remdups_id)
  ultimately show ?thesis by (simp add: merge_labels_append rev_filter)
qed

lemma update_first_nth:
  "find P xs = Some e \<Longrightarrow>
     \<exists>i<length xs. xs ! i = e \<and> P e \<and> (\<forall>j<i. \<not> P (xs ! j)) \<and> update_first P f xs = xs[i := f e]"
proof (induction xs)
  case Nil
  then show ?case by simp
next
  case (Cons a as)
  show ?case
  proof (cases "P a")
    case True
    with Cons.prems have "a = e" by simp
    with True show ?thesis by (intro exI [of _ 0]) simp
  next
    case False
    with Cons.prems have "find P as = Some e" by simp
    from Cons.IH [OF this] obtain i where i: "i < length as" "as ! i = e" "P e"
      "\<forall>j<i. \<not> P (as ! j)" "update_first P f as = as[i := f e]" by blast
    have "\<forall>j<Suc i. \<not> P ((a # as) ! j)"
      using False i(4) by (auto simp: less_Suc_eq_0_disj)
    with False i show ?thesis by (intro exI [of _ "Suc i"]) simp
  qed
qed

lemma update_first_none: "find P xs = None \<Longrightarrow> update_first P f xs = xs"
  by (induction xs) (auto split: if_splits)

lemma map_update_first:
  "(\<And>x. P x \<Longrightarrow> h (f x) = h x) \<Longrightarrow> map h (update_first P f xs) = map h xs"
  by (induction xs) auto

lemma length_update_first: "length (update_first P f xs) = length xs"
  by (induction xs) auto

lemma find_update_first:
  "find P xs = Some e \<Longrightarrow> P (f e) \<Longrightarrow> find P (update_first P f xs) = Some (f e)"
  by (induction xs) (auto split: if_splits)

lemma update_first_at:
  "k < length xs \<Longrightarrow>
     update_first P f xs ! k = (if P (xs ! k) \<and> (\<forall>j<k. \<not> P (xs ! j)) then f (xs ! k) else xs ! k)"
proof (induction xs arbitrary: k)
  case Nil
  then show ?case by simp
next
  case (Cons a as)
  show ?case
  proof (cases k)
    case 0
    then show ?thesis by simp
  next
    case (Suc m)
    with Cons.prems have m: "m < length as" by simp
    show ?thesis
    proof (cases "P a")
      case True
      have "0 < k" and "P ((a # as) ! 0)" using Suc True by simp_all
      then have "\<not> (\<forall>j<k. \<not> P ((a # as) ! j))" by blast
      with True Suc show ?thesis by auto
    next
      case False
      have "(\<forall>j<Suc m. \<not> P ((a # as) ! j)) \<longleftrightarrow> (\<forall>j<m. \<not> P (as ! j))"
        using False by (auto simp: less_Suc_eq_0_disj)
      with False Suc Cons.IH [OF m] show ?thesis by auto
    qed
  qed
qed

lemma find_snoc:
  "find P (xs @ [x]) = (case find P xs of Some y \<Rightarrow> Some y | None \<Rightarrow> (if P x then Some x else None))"
  by (induction xs) simp_all

lemma nodes_id_None_iff: "nodes_id ns i = None \<longleftrightarrow> i \<notin> set (map node_id ns)"
  by (auto simp: nodes_id_def find_None_iff)

lemma nodes_id_None_update_first:
  "nodes_id ns i = None \<Longrightarrow> update_first (\<lambda>n. node_id n = i) f ns = ns"
  by (simp add: nodes_id_def update_first_none)

subsection \<open>The operations in closed form\<close>

lemma createEdge_run:
  "createEdge userId source target label authHeader newId now peer w =
     (let g = graph_of w userId;
          nodes' = touch target now (touch source now (nodes g));
          e' = (case find (same_pair source target) (edges g) of
                  Some e \<Rightarrow> e\<lparr>edge_label := merge_labels (edge_label e) (normalize_label label)\<rparr>
                | None \<Rightarrow> \<lparr>edge_id = newId, edge_source = source, edge_target = target,
                            edge_label = normalize_label label\<rparr>)
      in (Inr (e', nodesForResponse nodes' source target),
          w\<lparr>kgraphs := (kgraphs w)(userId \<mapsto>
                \<lparr>nodes = nodes', edges = createEdge_edges source target label newId (edges g)\<rparr>),
            calls := calls w @
              [embed_edge_call userId (edge_id e') source target (label_or_empty label) authHeader],
            logged := logged w @ peer_log CreateEdge peer\<rparr>))"
  by (cases peer)
     (simp_all add: createEdge_def getOrCreateGraphDoc_run prog_defs Let_def createEdge_edges_def
       peer_log_def split: option.splits)

lemma updateEdge_run:
  "updateEdge userId source target label authHeader now peer w =
     (let g = graph_of w userId
      in case find (same_pair source target) (edges g) of
           None \<Rightarrow>
             (Inl (Failure UpdateEdge TypeError),
              w\<lparr>kgraphs := (kgraphs w)(userId \<mapsto> g),
                logged := logged w @ [CaughtError UpdateEdge TypeError]\<rparr>)
         | Some e \<Rightarrow>
             (let nodes' = touch target now (touch source now (nodes g))
              in (Inr (e\<lparr>edge_label := replace_label label\<rparr>,
                       nodesForResponse nodes' source target),
                  w\<lparr>kgraphs := (kgraphs w)(userId \<mapsto>
                        \<lparr>nodes = nodes',
                         edges = update_first (same_pair source target)
                                   (\<lambda>e. e\<lparr>edge_label := replace_label label\<rparr>) (edges g)\<rparr>),
                    calls := calls w @
                      [embed_edge_call userId (edge_id e) source target
                         (first_label_or_empty label) authHeader],
                    logged := logged w @ peer_log UpdateEdge peer\<rparr>)))"
  by (cases peer)
     (simp_all add: updateEdge_def getOrCreateGraphDoc_run prog_defs Let_def
       peer_log_def split: option.splits)

lemma deleteEdge_run:
  "deleteEdge userId source target authHeader now peer w =
     (let g = graph_of w userId
      in case find (same_pair source target) (edges g) of
           None \<Rightarrow>
             (Inl (Failure DeleteEdge TypeError),
              w\<lparr>kgraphs := (kgraphs w)(userId \<mapsto> g),
                logged := logged w @ [CaughtError DeleteEdge TypeError]\<rparr>)
         | Some e \<Rightarrow>
             (Inr 1,
              w\<lparr>kgraphs := (kgraphs w)(userId \<mapsto>
                    \<lparr>nodes = touch target now (touch source now (nodes g)),
                     edges = filter (\<lambda>x. edge_id x \<noteq> edge_id e) (edges g)\<rparr>),
                calls := calls w @ [embed_delete_call userId [edge_id e] authHeader],
                logged := logged w @ peer_log DeleteEdge peer\<rparr>))"
  by (cases peer)
     (simp_all add: deleteEdge_def getOrCreateGraphDoc_run prog_defs Let_def
       peer_log_def split: option.splits)

lemma clearGraph_run:
  "clearGraph userId authHeader peer w =
     (Inr True,
      w\<lparr>kgraphs := (kgraphs w)(userId := None),
        calls := calls w @
          [\<lparr>url = EmbedReset, body = UserPayload userId, timeout = Some 15000,
            authorization = headers authHeader\<rparr>],
        logged := logged w @ peer_log ClearGraph peer\<rparr>)"
  by (cases peer) (simp_all add: clearGraph_def prog_defs peer_log_def)

lemma createNode_run:
  "createNode userId d authHeader newId peer w =
     (let g = graph_of w userId
      in (Inr (created_node d newId),
          w\<lparr>kgraphs := (kgraphs w)(userId \<mapsto> g\<lparr>nodes := nodes g @ [created_node d newId]\<rparr>),
            calls := calls w @
              [embed_node_call userId [(newId, node_content (created_node d newId))] authHeader],
            logged := logged w @ peer_log CreateNode peer\<rparr>))"
  by (cases peer)
     (simp_all add: createNode_def getOrCreateGraphDoc_run prog_defs Let_def created_node_def
       peer_log_def)

lemma updateNode_run:
  "updateNode userId nodeId u authHeader peer w =
     (let g = graph_of w userId
      in case nodes_id (nodes g) nodeId of
           None \<Rightarrow>
             (Inl (Failure UpdateNode TypeError),
              w\<lparr>kgraphs := (kgraphs w)(userId \<mapsto> g),
                logged := logged w @ [CaughtError UpdateNode TypeError]\<rparr>)
         | Some n \<Rightarrow>
             (Inr (apply_update u n),
              w\<lparr>kgraphs := (kgraphs w)(userId \<mapsto>
                    g\<lparr>nodes := update_first (\<lambda>n. node_id n = nodeId) (apply_update u) (nodes g)\<rparr>),
                calls := calls w @
                  (if u_content u \<noteq> None
                   then [embed_node_call userId
                           [(node_id (apply_update u n), node_content (apply_update u n))]
                           authHeader]
                   else []),
                logged := logged w @ (if u_content u \<noteq> None then peer_log UpdateNode peer else [])\<rparr>))"
  by (cases peer)
     (simp_all add: updateNode_def getOrCreateGraphDoc_run prog_defs Let_def
       peer_log_def split: option.splits)

lemma importNodes_run:
  "importNodes userId nodeIds authHeader newId peer w =
     (let g = graph_of w userId;
          nodes' = nodes g @ assign_ids newId (imported w userId nodeIds);
          addedNodes = slice_last (length (imported w userId nodeIds)) nodes'
      in (Inr addedNodes,
          w\<lparr>kgraphs := (kgraphs w)(userId \<mapsto> g\<lparr>nodes := nodes'\<rparr>),
            messages :=
              map (\<lambda>m. if holds_candidate nodeIds userId m then curate nodeIds m else m)
                (messages w),
            calls := calls w @
              [embed_node_call userId (map (\<lambda>n. (node_id n, node_content n)) addedNodes)
                 authHeader],
            logged := logged w @ peer_log ImportNodes peer\<rparr>))"
  by (cases peer)
     (simp_all add: importNodes_def getOrCreateGraphDoc_run prog_defs Let_def imported_def
       Message_find_def save_messages_def peer_log_def)

lemma cast_ids_castable:
  "cast_ids castObjectId (convertedIds ObjectId nodeIds) \<noteq> None \<longleftrightarrow>
     castable ObjectId castObjectId nodeIds"
  by (induction nodeIds)
     (auto simp: convertedIds_def castable_def cast_id_def split: option.splits)

lemma canonical_castable:
  "canonical ObjectId castObjectId nodeIds \<Longrightarrow> castable ObjectId castObjectId nodeIds"
  by (induction nodeIds) (auto simp: canonical_def castable_def split: option.splits)



lemma deleteNodes_run:
  "deleteNodes ObjectId castObjectId userId nodeIds authHeader peer w =
     (case cast_ids castObjectId (convertedIds ObjectId nodeIds) of
        None \<Rightarrow>
          (Inl (Failure DeleteNodes CastError),
           w\<lparr>logged := logged w @ [CaughtError DeleteNodes CastError]\<rparr>)
      | Some keys \<Rightarrow>
          (let ids = map String_of (convertedIds ObjectId nodeIds)
           in (Inr (length nodeIds),
               w\<lparr>kgraphs :=
                   (case kgraphs w userId of
                      None \<Rightarrow> kgraphs w
                    | Some g \<Rightarrow>
                        (kgraphs w)(userId \<mapsto>
                          g\<lparr>nodes := filter (\<lambda>n. node_id n \<notin> set keys) (nodes g),
                            edges := filter (\<lambda>e. edge_source e \<notin> set ids \<and>
                                                edge_target e \<notin> set ids) (edges g)\<rparr>)),
                 calls := calls w @ [embed_delete_call userId ids authHeader],
                 logged := logged w @ peer_log DeleteNodes peer\<rparr>)))"
  by (cases peer; cases "kgraphs w userId";
      cases "cast_ids castObjectId (convertedIds ObjectId nodeIds)")
     (simp_all add: deleteNodes_def prog_defs Let_def pull_nodes_in_def pull_nodes_def
       pull_edges_def peer_log_def)

lemma getGraph_run:
  "getGraph userId convId w =
     (let g = graph_of w userId;
          filteredNodes =
            (if truthy convId
             then filter (\<lambda>n. node_source_conversation_id n = convId) (nodes g)
             else nodes g)
      in (Inr (Some (filteredNodes,
                     if truthy convId
                     then filter (\<lambda>e. edge_source e \<in> node_id ` set filteredNodes \<and>
                                      edge_target e \<in> node_id ` set filteredNodes) (edges g)
                     else edges g)),
          w\<lparr>kgraphs := (kgraphs w)(userId \<mapsto> g)\<rparr>))"
  by (simp add: getGraph_def getOrCreateGraphDoc_run prog_defs Let_def)

lemma map_node_id_place: "map node_id (place items ns) = map node_id ns"
  by (induction items arbitrary: ns) (simp_all add: map_update_first scaled_def)

lemma nodes_id_update_first_scaled:
  "nodes_id (update_first (\<lambda>n. node_id n = j) (scaled item) ns) i = None \<longleftrightarrow> nodes_id ns i = None"
  by (simp only: nodes_id_None_iff) (simp add: map_update_first scaled_def)

lemma update_coordinates_run:
  "update_coordinates userId items ns w =
     (Inr (place items ns),
      w\<lparr>logged := logged w @
          map (\<lambda>item. NodeNotFound userId (item_id item))
            (filter (\<lambda>item. nodes_id ns (item_id item) = None) items)\<rparr>)"
proof (induction items arbitrary: ns w)
  case Nil
  then show ?case by (simp add: preturn_def)
next
  case (Cons item items)
  show ?case
  proof (cases "nodes_id ns (item_id item)")
    case None
    then show ?thesis
      by (simp add: Cons.IH pbind_def logger_def nodes_id_None_update_first)
  next
    case (Some n)
    then show ?thesis
      by (simp add: Cons.IH scaled_def [abs_def] nodes_id_update_first_scaled [unfolded scaled_def [abs_def]])
  qed
qed

lemma calculateCluster_run:
  "calculateCluster userId authHeader peer w =
     (let call = \<lparr>url = CalculateUmap, body = UserPayload userId, timeout = None,
                  authorization = headers authHeader\<rparr>
      in case peer of
           Rejected \<Rightarrow>
             (Inl (Failure CalculateCluster PeerError),
              w\<lparr>calls := calls w @ [call],
                logged := logged w @ [CaughtError CalculateCluster PeerError]\<rparr>)
         | Resolved umapData \<Rightarrow>
             (let g = graph_of w userId
              in (Inr umapData,
                  w\<lparr>kgraphs := (kgraphs w)(userId \<mapsto> g\<lparr>nodes := place umapData (nodes g)\<rparr>),
                    calls := calls w @ [call],
                    logged := logged w @
                      map (\<lambda>item. NodeNotFound userId (item_id item))
                        (filter (\<lambda>item. nodes_id (nodes g) (item_id item) = None) umapData)\<rparr>)))"
  by (cases peer)
     (simp_all add: calculateCluster_def getOrCreateGraphDoc_run update_coordinates_run prog_defs
       Let_def)

lemma getRecommendations_unknown:
  assumes "strategies method = None"
  shows "getRecommendations strategies validMethods String userId method params w =
     (Inr [],
      w\<lparr>logged := logged w @
          [CaughtError GetRecommendations (Error (invalid_method method validMethods))]\<rparr>)"
  using assms by (simp add: getRecommendations_def prog_defs)

lemma getRecommendations_known:
  assumes "strategies method = Some strategy"
  shows "getRecommendations strategies validMethods String userId method params w =
     (case strategy userId params w of
        (Inl e, w1) \<Rightarrow> (Inr [], w1\<lparr>logged := logged w1 @ [CaughtError GetRecommendations e]\<rparr>)
      | (Inr None, w1) \<Rightarrow>
          (Inr [],
           w1\<lparr>kgraphs := (kgraphs w1)(userId \<mapsto> graph_of w1 userId),
              logged := logged w1 @ [CaughtError GetRecommendations TypeError]\<rparr>)
      | (Inr (Some recs), w1) \<Rightarrow>
          (Inr (filter (\<lambda>i. String i \<in> node_id ` set (nodes (graph_of w1 userId))) recs),
           w1\<lparr>kgraphs := (kgraphs w1)(userId \<mapsto> graph_of w1 userId)\<rparr>))"
  using assms
  by (simp add: getRecommendations_def getOrCreateGraphDoc_run prog_defs Let_def
      split: prod.splits sum.splits option.splits)

subsection \<open>Edge pairs are kept unique\<close>

lemma find_same_pair_None:
  "find (same_pair source target) es = None \<longleftrightarrow> (source, target) \<notin> set (map edge_pair es)"
  by (auto simp: find_None_iff same_pair_def edge_pair_def)

lemma map_edge_pair_createEdge_edges:
  "map edge_pair (createEdge_edges source target label newId es) =
     (if (source, target) \<in> set (map edge_pair es) then map edge_pair es
      else map edge_pair es @ [(source, target)])"
proof (cases "find (same_pair source target) es")
  case None
  then show ?thesis
    using find_same_pair_None [of source target es]
    by (simp add: createEdge_edges_def edge_pair_def)
next
  case (Some e)
  then have "(source, target) \<in> set (map edge_pair es)"
    using find_same_pair_None [of source target es] by simp
  with Some show ?thesis
    by (simp add: createEdge_edges_def map_update_first edge_pair_def)
qed

lemma distinct_createEdge_edges:
  "distinct (map edge_pair es) \<Longrightarrow>
     distinct (map edge_pair (createEdge_edges source target label newId es))"
  by (simp add: map_edge_pair_createEdge_edges)

lemma all_unique_store:
  assumes "all_unique w" and "kgraphs w' = (kgraphs w)(u \<mapsto> g)" and "distinct (map edge_pair (edges g))"
  shows "all_unique w'"
  using assms by (simp add: all_unique_def unique_pairs_def)

lemma distinct_graph_of: "all_unique w \<Longrightarrow> distinct (map edge_pair (edges (graph_of w u)))"
  by (cases "kgraphs w u") (simp_all add: all_unique_def graph_of_def unique_pairs_def)

lemma all_unique_getGraph: "all_unique w \<Longrightarrow> all_unique (snd (getGraph userId convId w))"
  by (rule all_unique_store [where u = userId and g = "graph_of w userId"])
     (simp_all add: getGraph_run Let_def distinct_graph_of)

lemma all_unique_createNode:
  "all_unique w \<Longrightarrow> all_unique (snd (createNode userId d authHeader newId peer w))"
  by (rule all_unique_store [where u = userId
        and g = "(graph_of w userId)\<lparr>nodes := nodes (graph_of w userId) @ [created_node d newId]\<rparr>"])
     (simp_all add: createNode_run Let_def distinct_graph_of)

lemma all_unique_updateNode:
  assumes "all_unique w"
  shows "all_unique (snd (updateNode userId nodeId u authHeader peer w))"
proof (cases "nodes_id (nodes (graph_of w userId)) nodeId")
  case None
  show ?thesis
    by (rule all_unique_store [OF assms, where u = userId and g = "graph_of w userId"])
       (simp_all add: updateNode_run Let_def None distinct_graph_of [OF assms])
next
  case (Some n)
  show ?thesis
    by (rule all_unique_store [OF assms, where u = userId
          and g = "(graph_of w userId)\<lparr>nodes :=
                update_first (\<lambda>n. node_id n = nodeId) (apply_update u) (nodes (graph_of w userId))\<rparr>"])
       (simp_all add: updateNode_run Let_def Some distinct_graph_of [OF assms])
qed

lemma all_unique_importNodes:
  assumes "all_unique w"
  shows "all_unique (snd (importNodes userId nodeIds authHeader newIds peer w))"
  by (rule all_unique_store [OF assms, where u = userId
        and g = "(graph_of w userId)\<lparr>nodes :=
              nodes (graph_of w userId) @ assign_ids newIds (imported w userId nodeIds)\<rparr>"])
     (simp_all add: importNodes_run Let_def distinct_graph_of [OF assms])

lemma all_unique_deleteNodes:
  assumes "all_unique w"
  shows "all_unique (snd (deleteNodes ObjectId castObjectId userId nodeIds authHeader peer w))"
proof (cases "cast_ids castObjectId (convertedIds ObjectId nodeIds)")
  case None
  with assms show ?thesis by (simp add: deleteNodes_run all_unique_def)
next
  case keys: (Some keys)
  let ?ids = "map String_of (convertedIds ObjectId nodeIds)"
  show ?thesis
  proof (cases "kgraphs w userId")
    case None
    with assms keys show ?thesis by (simp add: deleteNodes_run Let_def all_unique_def)
  next
    case (Some g)
    with assms have "distinct (map edge_pair (edges g))"
      by (simp add: all_unique_def unique_pairs_def)
    then have "distinct (map edge_pair (filter (\<lambda>e. edge_source e \<notin> set ?ids \<and>
        edge_target e \<notin> set ?ids) (edges g)))"
      by (rule distinct_map_filter)
    then show ?thesis
      by (intro all_unique_store [OF assms, where u = userId
            and g = "g\<lparr>nodes := filter (\<lambda>n. node_id n \<notin> set keys) (nodes g),
                    edges := filter (\<lambda>e. edge_source e \<notin> set ?ids \<and>
                        edge_target e \<notin> set ?ids) (edges g)\<rparr>"])
         (simp_all add: deleteNodes_run Let_def Some keys)
  qed
qed

lemma all_unique_createEdge:
  assumes "all_unique w"
  shows "all_unique (snd (createEdge userId source target label authHeader newId now peer w))"
  by (rule all_unique_store [OF assms, where u = userId
        and g = "\<lparr>nodes = touch target now (touch source now (nodes (graph_of w userId))),
                edges = createEdge_edges source target label newId (edges (graph_of w userId))\<rparr>"])
     (simp_all add: createEdge_run Let_def distinct_createEdge_edges distinct_graph_of [OF assms])

lemma all_unique_updateEdge:
  assumes "all_unique w"
  shows "all_unique (snd (updateEdge userId source target label authHeader now peer w))"
proof (cases "find (same_pair source target) (edges (graph_of w userId))")
  case None
  show ?thesis
    by (rule all_unique_store [OF assms, where u = userId and g = "graph_of w userId"])
       (simp_all add: updateEdge_run Let_def None distinct_graph_of [OF assms])
next
  case (Some e)
  have "map edge_pair (update_first (same_pair source target)
          (\<lambda>e. e\<lparr>edge_label := replace_label label\<rparr>) (edges (graph_of w userId))) =
        map edge_pair (edges (graph_of w userId))"
    by (rule map_update_first) (simp add: edge_pair_def)
  then show ?thesis
    by (intro all_unique_store [OF assms, where u = userId
          and g = "\<lparr>nodes = touch target now (touch source now (nodes (graph_of w userId))),
                  edges = update_first (same_pair source target)
                    (\<lambda>e. e\<lparr>edge_label := replace_label label\<rparr>) (edges (graph_of w userId))\<rparr>"])
       (simp_all add: updateEdge_run Let_def Some distinct_graph_of [OF assms])
qed

lemma all_unique_deleteEdge:
  assumes "all_unique w"
  shows "all_unique (snd (deleteEdge userId source target authHeader now peer w))"
proof (cases "find (same_pair source target) (edges (graph_of w userId))")
  case None
  show ?thesis
    by (rule all_unique_store [OF assms, where u = userId and g = "graph_of w userId"])
       (simp_all add: deleteEdge_run Let_def None distinct_graph_of [OF assms])
next
  case (Some e)
  show ?thesis
    by (rule all_unique_store [OF assms, where u = userId
          and g = "\<lparr>nodes = touch target now (touch source now (nodes (graph_of w userId))),
                  edges = filter (\<lambda>x. edge_id x \<noteq> edge_id e) (edges (graph_of w userId))\<rparr>"])
       (simp_all add: deleteEdge_run Let_def Some distinct_map_filter distinct_graph_of [OF assms])
qed

lemma all_unique_clearGraph:
  "all_unique w \<Longrightarrow> all_unique (snd (clearGraph userId authHeader peer w))"
  by (simp add: clearGraph_run all_unique_def)

lemma all_unique_calculateCluster:
  assumes "all_unique w"
  shows "all_unique (snd (calculateCluster userId authHeader umap w))"
proof (cases umap)
  case Rejected
  with assms show ?thesis by (simp add: calculateCluster_run all_unique_def)
next
  case (Resolved umapData)
  show ?thesis
    by (rule all_unique_store [OF assms, where u = userId
          and g = "(graph_of w userId)\<lparr>nodes := place umapData (nodes (graph_of w userId))\<rparr>"])
       (simp_all add: calculateCluster_run Let_def Resolved distinct_graph_of [OF assms])
qed

lemma reachable_all_unique: "reachable ObjectId castObjectId w \<Longrightarrow> all_unique w"
proof (induction rule: reachable.induct)
  case (start ms)
  show ?case by (simp add: all_unique_def)
qed (simp_all add: all_unique_getGraph all_unique_createNode all_unique_updateNode
      all_unique_importNodes all_unique_deleteNodes all_unique_createEdge all_unique_updateEdge
      all_unique_deleteEdge all_unique_clearGraph all_unique_calculateCluster)

lemma createEdge_existing_pair:
  assumes "find (same_pair source target) es = Some e"
  shows "\<exists>i<length es. es ! i = e \<and>
           createEdge_edges source target label newId es =
             es[i := e\<lparr>edge_label := merge_labels (edge_label e) (normalize_label label)\<rparr>]"
  using update_first_nth [OF assms,
      of "\<lambda>e. e\<lparr>edge_label := merge_labels (edge_label e) (normalize_label label)\<rparr>"] assms
  by (auto simp: createEdge_edges_def)

subsection \<open>The peer's answer does not reach the caller\<close>

lemma same_outcome_createNode:
  "same_outcome (createNode userId d authHeader newId Rejected w)
     (createNode userId d authHeader newId (Resolved ()) w)"
  by (simp add: same_outcome_def createNode_run Let_def)

lemma same_outcome_updateNode:
  "same_outcome (updateNode userId nodeId u authHeader Rejected w)
     (updateNode userId nodeId u authHeader (Resolved ()) w)"
  by (cases "nodes_id (nodes (graph_of w userId)) nodeId")
     (simp_all add: same_outcome_def updateNode_run Let_def)

lemma same_outcome_importNodes:
  "same_outcome (importNodes userId nodeIds authHeader newIds Rejected w)
     (importNodes userId nodeIds authHeader newIds (Resolved ()) w)"
  by (simp add: same_outcome_def importNodes_run Let_def)

lemma same_outcome_deleteNodes:
  "same_outcome (deleteNodes ObjectId castObjectId userId nodeIds authHeader Rejected w)
     (deleteNodes ObjectId castObjectId userId nodeIds authHeader (Resolved ()) w)"
  by (cases "cast_ids castObjectId (convertedIds ObjectId nodeIds)")
     (simp_all add: same_outcome_def deleteNodes_run Let_def)

lemma same_outcome_createEdge:
  "same_outcome (createEdge userId source target label authHeader newId now Rejected w)
     (createEdge userId source target label authHeader newId now (Resolved ()) w)"
  by (simp add: same_outcome_def createEdge_run Let_def)

lemma same_outcome_updateEdge:
  "same_outcome (updateEdge userId source target label authHeader now Rejected w)
     (updateEdge userId source target label authHeader now (Resolved ()) w)"
  by (cases "find (same_pair source target) (edges (graph_of w userId))")
     (simp_all add: same_outcome_def updateEdge_run Let_def)

lemma same_outcome_deleteEdge:
  "same_outcome (deleteEdge userId source target authHeader now Rejected w)
     (deleteEdge userId source target authHeader now (Resolved ()) w)"
  by (cases "find (same_pair source target) (edges (graph_of w userId))")
     (simp_all add: same_outcome_def deleteEdge_run Let_def)

lemma same_outcome_clearGraph:
  "same_outcome (clearGraph userId authHeader Rejected w)
     (clearGraph userId authHeader (Resolved ()) w)"
  by (simp add: same_outcome_def clearGraph_run)

subsection \<open>The coordinates after a layout\<close>

lemma first_with_id_cong:
  "map node_id ns' = map node_id ns \<Longrightarrow> k < length ns \<Longrightarrow>
     first_with_id ns' k = first_with_id ns k"
proof -
  assume ids: "map node_id ns' = map node_id ns" and k: "k < length ns"
  have len: "length ns' = length ns" using ids by (rule map_eq_imp_length_eq)
  have "node_id (ns' ! j) = node_id (ns ! j)" if "j < length ns" for j
    using that ids len by (metis nth_map)
  with k show ?thesis by (simp add: first_with_id_def)
qed

lemma placed_Cons:
  "placed (item # items) n = placed items (if item_id item = node_id n then scaled item n else n)"
  by (simp add: placed_def last_item_def find_snoc scaled_def split: option.splits)

lemma place_at:
  "k < length ns \<Longrightarrow>
     place items ns ! k = (if first_with_id ns k then placed items (ns ! k) else ns ! k)"
proof (induction items arbitrary: ns)
  case Nil
  then show ?case by (simp add: placed_def last_item_def)
next
  case (Cons item items)
  let ?P = "\<lambda>n. node_id n = item_id item"
  let ?ns1 = "update_first ?P (scaled item) ns"
  have ids: "map node_id ?ns1 = map node_id ns"
    by (simp add: map_update_first scaled_def)
  have k1: "k < length ?ns1" using Cons.prems by (simp add: length_update_first)
  have first: "first_with_id ?ns1 k = first_with_id ns k"
    using ids Cons.prems by (rule first_with_id_cong)
  have at: "?ns1 ! k = (if ?P (ns ! k) \<and> (\<forall>j<k. \<not> ?P (ns ! j)) then scaled item (ns ! k) else ns ! k)"
    using Cons.prems by (rule update_first_at)
  show ?case
  proof (cases "first_with_id ns k")
    case True
    then have "(\<forall>j<k. \<not> ?P (ns ! j))" if "?P (ns ! k)"
      using that by (simp add: first_with_id_def)
    with at have "?ns1 ! k = (if item_id item = node_id (ns ! k) then scaled item (ns ! k) else ns ! k)"
      by auto
    with True first Cons.IH [OF k1] show ?thesis by (simp add: placed_Cons)
  next
    case False
    then obtain j where "j < k" "node_id (ns ! j) = node_id (ns ! k)"
      by (auto simp: first_with_id_def)
    then have "\<not> (?P (ns ! k) \<and> (\<forall>j<k. \<not> ?P (ns ! j)))" by auto
    with at have "?ns1 ! k = ns ! k" by simp
    with False first Cons.IH [OF k1] show ?thesis by simp
  qed
qed

lemma length_place: "length (place items ns) = length ns"
  using map_node_id_place [of items ns] by (rule map_eq_imp_length_eq)

lemma place_distinct:
  assumes "distinct (map node_id ns)"
  shows "place items ns = map (placed items) ns"
proof (rule nth_equalityI)
  show "length (place items ns) = length (map (placed items) ns)" by (simp add: length_place)
next
  fix k assume "k < length (place items ns)"
  then have k: "k < length ns" by (simp add: length_place)
  have "first_with_id ns k"
    unfolding first_with_id_def
  proof (intro allI impI)
    fix j assume "j < k"
    with k have "j < length ns" "k < length ns" "j \<noteq> k" by simp_all
    with assms [unfolded distinct_conv_nth]
    show "node_id (ns ! j) \<noteq> node_id (ns ! k)" by auto
  qed
  with k show "place items ns ! k = map (placed items) ns ! k" by (simp add: place_at)
qed

subsection \<open>The example worlds\<close>

lemma w_edge_graph:
  "graph_of w_edge ''u1'' =
     \<lparr>nodes = [],
      edges = [\<lparr>edge_id = ''e1'', edge_source = ''A'', edge_target = ''B'',
                edge_label = [''cause'']\<rparr>]\<rparr>"
  by (simp add: w_edge_def w_start_def createEdge_run Let_def graph_of_def createEdge_edges_def
      touch_def normalize_label_def)

lemma w_two_graph: "graph_of w_two ''u1'' = \<lparr>nodes = [node_A, node_B], edges = [edge_AB, edge_BB]\<rparr>"
  by (simp add: w_two_def graph_of_def node_A_def node_B_def edge_AB_def edge_BB_def)

section \<open>C1: one edge per ordered pair, labels merged\<close>

text \<open>
  Claim C1. \<open>createEdge\<close> keeps at most one edge per ordered (source, target) pair. When
  the pair already has an edge, the edge list keeps its length: only the label of that
  edge changes, to the old labels followed by the new labels that were not yet present,
  each once, in the order of their first occurrence. The merged label has no duplicates
  when the old one had none, and is then the first-occurrence deduplication of old
  followed by new. In every world that the operations of the module build from an empty
  store, every document has at most one edge per pair.
\<close>

theorem createEdge_one_edge_per_pair:
  assumes run: "createEdge userId source target label authHeader newId now peer w = (r, w')"
  shows "kgraphs w' userId = Some (graph_of w' userId) \<and>
    (unique_pairs (graph_of w userId) \<longrightarrow> unique_pairs (graph_of w' userId)) \<and>
    (\<forall>e. find (same_pair source target) (edges (graph_of w userId)) = Some e \<longrightarrow>
       length (edges (graph_of w' userId)) = length (edges (graph_of w userId)) \<and>
       (\<exists>i<length (edges (graph_of w userId)).
          edges (graph_of w userId) ! i = e \<and>
          edges (graph_of w' userId) =
            (edges (graph_of w userId))
              [i := e\<lparr>edge_label := merge_labels (edge_label e) (normalize_label label)\<rparr>]) \<and>
       (\<exists>ns. r = Inr (e\<lparr>edge_label := merge_labels (edge_label e) (normalize_label label)\<rparr>, ns)) \<and>
       set (merge_labels (edge_label e) (normalize_label label)) =
         set (edge_label e) \<union> set (normalize_label label) \<and>
       merge_labels (edge_label e) (normalize_label label) =
         edge_label e @
         rev (remdups (rev (filter (\<lambda>l. l \<notin> set (edge_label e)) (normalize_label label)))) \<and>
       (distinct (edge_label e) \<longrightarrow>
          distinct (merge_labels (edge_label e) (normalize_label label)) \<and>
          merge_labels (edge_label e) (normalize_label label) =
            rev (remdups (rev (edge_label e @ normalize_label label))))) \<and>
    (reachable ObjectId castObjectId w \<longrightarrow> all_unique w \<and> all_unique w')"
proof -
  let ?g = "graph_of w userId"
  from run have w': "w' = snd (createEdge userId source target label authHeader newId now peer w)"
    and r: "r = fst (createEdge userId source target label authHeader newId now peer w)"
    by simp_all
  have edges': "edges (graph_of w' userId) = createEdge_edges source target label newId (edges ?g)"
    by (simp add: w' createEdge_run Let_def)
  have inv: "unique_pairs ?g \<longrightarrow> unique_pairs (graph_of w' userId)"
    by (simp add: unique_pairs_def edges' distinct_createEdge_edges)
  have existing: "length (edges (graph_of w' userId)) = length (edges ?g) \<and>
       (\<exists>i<length (edges ?g). edges ?g ! i = e \<and>
          edges (graph_of w' userId) =
            (edges ?g)[i := e\<lparr>edge_label := merge_labels (edge_label e) (normalize_label label)\<rparr>]) \<and>
       (\<exists>ns. r = Inr (e\<lparr>edge_label := merge_labels (edge_label e) (normalize_label label)\<rparr>, ns))"
    if found: "find (same_pair source target) (edges ?g) = Some e" for e
  proof (intro conjI)
    from createEdge_existing_pair [OF found, of label newId]
    show "\<exists>i<length (edges ?g). edges ?g ! i = e \<and>
          edges (graph_of w' userId) =
            (edges ?g)[i := e\<lparr>edge_label := merge_labels (edge_label e) (normalize_label label)\<rparr>]"
      by (simp add: edges')
    then show "length (edges (graph_of w' userId)) = length (edges ?g)" by auto
    show "\<exists>ns. r = Inr (e\<lparr>edge_label := merge_labels (edge_label e) (normalize_label label)\<rparr>, ns)"
      by (simp add: r createEdge_run Let_def found)
  qed
  have reach: "all_unique w \<and> all_unique w'" if "reachable ObjectId castObjectId w"
  proof
    from that show "all_unique w" by (rule reachable_all_unique)
    from that have "reachable ObjectId castObjectId w'" unfolding w' by (rule by_createEdge)
    then show "all_unique w'" by (rule reachable_all_unique)
  qed
  have stored: "kgraphs w' userId = Some (graph_of w' userId)"
    by (simp add: w' createEdge_run Let_def)
  show ?thesis
    using stored inv existing reach
    by (simp add: merge_labels_set merge_labels_distinct merge_labels_append [symmetric]
        merge_labels_first_seen)
qed

theorem createEdge_one_edge_per_pair_witness:
  "reachable Some Some w_edge \<and>
   find (same_pair ''A'' ''B'') (edges (graph_of w_edge ''u1'')) =
     Some \<lparr>edge_id = ''e1'', edge_source = ''A'', edge_target = ''B'', edge_label = [''cause'']\<rparr> \<and>
   edges (graph_of
      (snd (createEdge ''u1'' ''A'' ''B'' (LArray [''alt'', ''cause'', ''alt'']) None ''e2'' 2
              Rejected w_edge)) ''u1'') =
     [\<lparr>edge_id = ''e1'', edge_source = ''A'', edge_target = ''B'',
       edge_label = [''cause'', ''alt'']\<rparr>] \<and>
   all_unique
     (snd (createEdge ''u1'' ''A'' ''B'' (LArray [''alt'', ''cause'', ''alt'']) None ''e2'' 2
             Rejected w_edge))"
proof -
  let ?run = "createEdge ''u1'' ''A'' ''B'' (LArray [''alt'', ''cause'', ''alt'']) None ''e2'' 2
      Rejected w_edge"
  let ?e = "\<lparr>edge_id = ''e1'', edge_source = ''A'', edge_target = ''B'', edge_label = [''cause'']\<rparr>"
  have reach: "reachable Some Some w_edge"
    unfolding w_edge_def w_start_def by (rule by_createEdge) (rule start)
  have found: "find (same_pair ''A'' ''B'') (edges (graph_of w_edge ''u1'')) = Some ?e"
    by (simp add: w_edge_graph same_pair_def)
  have run: "?run = (fst ?run, snd ?run)" by simp
  note inst = createEdge_one_edge_per_pair [OF run, of Some Some]
  note existing = inst [THEN conjunct2, THEN conjunct2, THEN conjunct1, rule_format, OF found]
  note inv = inst [THEN conjunct2, THEN conjunct2, THEN conjunct2, rule_format, OF reach]
  from existing obtain i where "i < length (edges (graph_of w_edge ''u1''))"
    and "edges (graph_of (snd ?run) ''u1'') =
          (edges (graph_of w_edge ''u1''))
            [i := ?e\<lparr>edge_label := merge_labels (edge_label ?e)
               (normalize_label (LArray [''alt'', ''cause'', ''alt'']))\<rparr>]"
    by blast
  then have "edges (graph_of (snd ?run) ''u1'') = [?e\<lparr>edge_label := [''cause'', ''alt'']\<rparr>]"
    by (simp add: w_edge_graph normalize_label_def)
  with reach found inv show ?thesis by simp
qed

section \<open>C2: batch deletion cascades to the incident edges\<close>




section \<open>C3: updateEdge replaces the labels\<close>

text \<open>
  Claim C3. For an existing edge of the pair, \<open>updateEdge\<close> changes only that edge, and
  sets its label to the array given, to the one-element sequence of the string given, or
  to the empty sequence when no label is given; the old labels play no part. The edge
  returned is the edge stored.
\<close>

theorem updateEdge_replaces_labels:
  assumes found: "find (same_pair source target) (edges (graph_of w userId)) = Some e"
    and run: "updateEdge userId source target label authHeader now peer w = (r, w')"
  shows "kgraphs w' userId = Some (graph_of w' userId) \<and>
    (\<exists>i<length (edges (graph_of w userId)).
        edges (graph_of w userId) ! i = e \<and>
        edges (graph_of w' userId) =
          (edges (graph_of w userId))[i := e\<lparr>edge_label := replace_label label\<rparr>]) \<and>
    find (same_pair source target) (edges (graph_of w' userId)) =
      Some (e\<lparr>edge_label := replace_label label\<rparr>) \<and>
    (\<exists>ns. r = Inr (e\<lparr>edge_label := replace_label label\<rparr>, ns)) \<and>
    replace_label label =
      (case label of LArray xs \<Rightarrow> xs | LString s \<Rightarrow> [s] | LUndefined \<Rightarrow> [])"
proof -
  let ?es = "edges (graph_of w userId)"
  let ?f = "\<lambda>e. e\<lparr>edge_label := replace_label label\<rparr>"
  from run have r: "r = fst (updateEdge userId source target label authHeader now peer w)"
    and w': "w' = snd (updateEdge userId source target label authHeader now peer w)"
    by simp_all
  have edges': "edges (graph_of w' userId) = update_first (same_pair source target) ?f ?es"
    by (simp add: w' updateEdge_run Let_def found)
  from update_first_nth [OF found, of ?f]
  have position: "\<exists>i<length ?es. ?es ! i = e \<and> edges (graph_of w' userId) = ?es[i := ?f e]"
    unfolding edges' by blast
  from found have "same_pair source target e"
    by (auto simp: find_Some_iff)
  then have "same_pair source target (?f e)"
    by (simp add: same_pair_def)
  with found have stored: "find (same_pair source target) (edges (graph_of w' userId)) = Some (?f e)"
    unfolding edges' by (rule find_update_first)
  have result: "\<exists>ns. r = Inr (?f e, ns)"
    by (simp add: r updateEdge_run Let_def found)
  have kept: "kgraphs w' userId = Some (graph_of w' userId)"
    by (simp add: w' updateEdge_run Let_def found)
  from kept position stored result show ?thesis
    by (simp add: replace_label_def)
qed

theorem updateEdge_replaces_labels_witness:
  "find (same_pair ''A'' ''B'') (edges (graph_of w_two ''u1'')) =
     Some \<lparr>edge_id = ''e1'', edge_source = ''A'', edge_target = ''B'',
           edge_label = [''cause'', ''alt'']\<rparr> \<and>
   find (same_pair ''A'' ''B'')
     (edges (graph_of (snd (updateEdge ''u1'' ''A'' ''B'' (LArray [''similar'']) None 7 Rejected w_two))
        ''u1'')) =
     Some \<lparr>edge_id = ''e1'', edge_source = ''A'', edge_target = ''B'',
           edge_label = [''similar'']\<rparr> \<and>
   find (same_pair ''A'' ''B'')
     (edges (graph_of (snd (updateEdge ''u1'' ''A'' ''B'' LUndefined None 7 (Resolved ()) w_two))
        ''u1'')) =
     Some \<lparr>edge_id = ''e1'', edge_source = ''A'', edge_target = ''B'', edge_label = []\<rparr>"
proof -
  let ?e = "\<lparr>edge_id = ''e1'', edge_source = ''A'', edge_target = ''B'',
      edge_label = [''cause'', ''alt'']\<rparr>"
  let ?run1 = "updateEdge ''u1'' ''A'' ''B'' (LArray [''similar'']) None 7 Rejected w_two"
  let ?run2 = "updateEdge ''u1'' ''A'' ''B'' LUndefined None 7 (Resolved ()) w_two"
  have found: "find (same_pair ''A'' ''B'') (edges (graph_of w_two ''u1'')) = Some ?e"
    by (simp add: w_two_def graph_of_def same_pair_def)
  have run1: "?run1 = (fst ?run1, snd ?run1)" and run2: "?run2 = (fst ?run2, snd ?run2)"
    by simp_all
  from updateEdge_replaces_labels [OF found run1] updateEdge_replaces_labels [OF found run2] found
  show ?thesis by simp
qed

section \<open>C4: an unknown node or edge makes the operation fail\<close>

text \<open>
  Claim C4. When \<open>nodeId\<close> resolves to no node of the user's document, \<open>updateNode\<close>
  fails; when the pair has no edge, \<open>updateEdge\<close> and \<open>deleteEdge\<close> fail. The caller
  receives the error that the outer \<open>catch\<close> of the operation builds, the document is
  left as it was found (or created), and no request reaches the peer. These are the only
  failures of the three operations: each fails exactly when its lookup finds nothing. The
  source has one class of error; the one thrown here comes from the use of the missing
  sub-document.
\<close>

theorem missing_node_or_edge_fails:
  "(nodes_id (nodes (graph_of w userId)) nodeId = None \<longrightarrow>
      updateNode userId nodeId u authHeader peer w =
        (Inl (Failure UpdateNode TypeError),
         w\<lparr>kgraphs := (kgraphs w)(userId \<mapsto> graph_of w userId),
           logged := logged w @ [CaughtError UpdateNode TypeError]\<rparr>)) \<and>
   (find (same_pair source target) (edges (graph_of w userId)) = None \<longrightarrow>
      updateEdge userId source target label authHeader now peer w =
        (Inl (Failure UpdateEdge TypeError),
         w\<lparr>kgraphs := (kgraphs w)(userId \<mapsto> graph_of w userId),
           logged := logged w @ [CaughtError UpdateEdge TypeError]\<rparr>) \<and>
      deleteEdge userId source target authHeader now peer w =
        (Inl (Failure DeleteEdge TypeError),
         w\<lparr>kgraphs := (kgraphs w)(userId \<mapsto> graph_of w userId),
           logged := logged w @ [CaughtError DeleteEdge TypeError]\<rparr>)) \<and>
   (isl (fst (updateNode userId nodeId u authHeader peer w)) \<longleftrightarrow>
      nodes_id (nodes (graph_of w userId)) nodeId = None) \<and>
   (isl (fst (updateEdge userId source target label authHeader now peer w)) \<longleftrightarrow>
      find (same_pair source target) (edges (graph_of w userId)) = None) \<and>
   (isl (fst (deleteEdge userId source target authHeader now peer w)) \<longleftrightarrow>
      find (same_pair source target) (edges (graph_of w userId)) = None)"
proof -
  have node: "isl (fst (updateNode userId nodeId u authHeader peer w)) \<longleftrightarrow>
      nodes_id (nodes (graph_of w userId)) nodeId = None"
    by (cases "nodes_id (nodes (graph_of w userId)) nodeId") (simp_all add: updateNode_run Let_def)
  have upd: "isl (fst (updateEdge userId source target label authHeader now peer w)) \<longleftrightarrow>
      find (same_pair source target) (edges (graph_of w userId)) = None"
    by (cases "find (same_pair source target) (edges (graph_of w userId))")
       (simp_all add: updateEdge_run Let_def)
  have del: "isl (fst (deleteEdge userId source target authHeader now peer w)) \<longleftrightarrow>
      find (same_pair source target) (edges (graph_of w userId)) = None"
    by (cases "find (same_pair source target) (edges (graph_of w userId))")
       (simp_all add: deleteEdge_run Let_def)
  from node upd del show ?thesis
    by (simp add: updateNode_run updateEdge_run deleteEdge_run Let_def)
qed

theorem missing_node_or_edge_fails_witness:
  "nodes_id (nodes (graph_of w_two ''u1'')) ''Z'' = None \<and>
   fst (updateNode ''u1'' ''Z''
          \<lparr>u_label = LUndefined, u_labels = LUndefined, u_x = Some 3, u_y = None, u_content = None,
           u_source_message_id = None, u_source_conversation_id = None\<rparr> None (Resolved ()) w_two) =
     Inl (Failure UpdateNode TypeError) \<and>
   find (same_pair ''B'' ''A'') (edges (graph_of w_two ''u1'')) = None \<and>
   fst (updateEdge ''u1'' ''B'' ''A'' (LString ''x'') None 7 (Resolved ()) w_two) =
     Inl (Failure UpdateEdge TypeError) \<and>
   fst (deleteEdge ''u1'' ''B'' ''A'' None 7 (Resolved ()) w_two) =
     Inl (Failure DeleteEdge TypeError) \<and>
   kgraphs (snd (deleteEdge ''u1'' ''B'' ''A'' None 7 (Resolved ()) w_two)) = kgraphs w_two"
proof -
  have node: "nodes_id (nodes (graph_of w_two ''u1'')) ''Z'' = None"
    by (simp add: w_two_def graph_of_def nodes_id_def)
  have edge: "find (same_pair ''B'' ''A'') (edges (graph_of w_two ''u1'')) = None"
    by (simp add: w_two_def graph_of_def same_pair_def)
  have stored: "(kgraphs w_two)(''u1'' \<mapsto> graph_of w_two ''u1'') = kgraphs w_two"
    by (simp add: w_two_def graph_of_def)
  from node edge stored
    missing_node_or_edge_fails [of w_two "''u1''" "''Z''"
      "\<lparr>u_label = LUndefined, u_labels = LUndefined, u_x = Some 3, u_y = None, u_content = None,
        u_source_message_id = None, u_source_conversation_id = None\<rparr>" None "Resolved ()"
      "''B''" "''A''" "LString ''x''" 7]
  show ?thesis by simp
qed

section \<open>C5: a failure of the peer stays inside the operation\<close>

text \<open>
  Claim C5. For each of the eight mutations, the run in which the request to the peer is
  rejected and the run in which it succeeds give the caller the same result and leave the
  same graph documents and messages: the rejection is caught and logged. With a failing
  peer \<open>createNode\<close> still returns the node it stored, \<open>clearGraph\<close> still returns
  success with the document gone, \<open>importNodes\<close> and \<open>createEdge\<close> still succeed,
  \<open>deleteNodes\<close> fails only when the document store refuses an identifier, and the
  other three fail only when their lookup finds nothing.
\<close>

theorem peer_failure_not_escalated:
  "same_outcome (createNode userId d authHeader newId Rejected w)
     (createNode userId d authHeader newId (Resolved ()) w) \<and>
   same_outcome (updateNode userId nodeId u authHeader Rejected w)
     (updateNode userId nodeId u authHeader (Resolved ()) w) \<and>
   same_outcome (importNodes userId nodeIds authHeader newIds Rejected w)
     (importNodes userId nodeIds authHeader newIds (Resolved ()) w) \<and>
   same_outcome (deleteNodes ObjectId castObjectId userId nodeIds authHeader Rejected w)
     (deleteNodes ObjectId castObjectId userId nodeIds authHeader (Resolved ()) w) \<and>
   same_outcome (createEdge userId source target label authHeader newId now Rejected w)
     (createEdge userId source target label authHeader newId now (Resolved ()) w) \<and>
   same_outcome (updateEdge userId source target label authHeader now Rejected w)
     (updateEdge userId source target label authHeader now (Resolved ()) w) \<and>
   same_outcome (deleteEdge userId source target authHeader now Rejected w)
     (deleteEdge userId source target authHeader now (Resolved ()) w) \<and>
   same_outcome (clearGraph userId authHeader Rejected w)
     (clearGraph userId authHeader (Resolved ()) w) \<and>
   fst (createNode userId d authHeader newId Rejected w) = Inr (created_node d newId) \<and>
   nodes (graph_of (snd (createNode userId d authHeader newId Rejected w)) userId) =
     nodes (graph_of w userId) @ [created_node d newId] \<and>
   fst (clearGraph userId authHeader Rejected w) = Inr True \<and>
   kgraphs (snd (clearGraph userId authHeader Rejected w)) userId = None \<and>
   logged (snd (clearGraph userId authHeader Rejected w)) =
     logged w @ [CaughtError ClearGraph PeerError] \<and>
   \<not> isl (fst (importNodes userId nodeIds authHeader newIds Rejected w)) \<and>
   (isl (fst (deleteNodes ObjectId castObjectId userId nodeIds authHeader Rejected w)) \<longleftrightarrow>
      \<not> castable ObjectId castObjectId nodeIds) \<and>
   \<not> isl (fst (createEdge userId source target label authHeader newId now Rejected w)) \<and>
   (isl (fst (updateNode userId nodeId u authHeader Rejected w)) \<longleftrightarrow>
      nodes_id (nodes (graph_of w userId)) nodeId = None) \<and>
   (isl (fst (updateEdge userId source target label authHeader now Rejected w)) \<longleftrightarrow>
      find (same_pair source target) (edges (graph_of w userId)) = None) \<and>
   (isl (fst (deleteEdge userId source target authHeader now Rejected w)) \<longleftrightarrow>
      find (same_pair source target) (edges (graph_of w userId)) = None)"
proof -
  have created: "fst (createNode userId d authHeader newId Rejected w) = Inr (created_node d newId)"
    and stored: "nodes (graph_of (snd (createNode userId d authHeader newId Rejected w)) userId) =
        nodes (graph_of w userId) @ [created_node d newId]"
    by (simp_all add: createNode_run Let_def)
  have cleared: "fst (clearGraph userId authHeader Rejected w) = Inr True"
    and gone: "kgraphs (snd (clearGraph userId authHeader Rejected w)) userId = None"
    and reported: "logged (snd (clearGraph userId authHeader Rejected w)) =
        logged w @ [CaughtError ClearGraph PeerError]"
    by (simp_all add: clearGraph_run peer_log_def)
  have imp: "\<not> isl (fst (importNodes userId nodeIds authHeader newIds Rejected w))"
    by (simp add: importNodes_run Let_def)
  have dels: "isl (fst (deleteNodes ObjectId castObjectId userId nodeIds authHeader Rejected w)) \<longleftrightarrow>
      \<not> castable ObjectId castObjectId nodeIds"
    using cast_ids_castable [of castObjectId ObjectId nodeIds]
    by (cases "cast_ids castObjectId (convertedIds ObjectId nodeIds)")
       (simp_all add: deleteNodes_run Let_def)
  have cre: "\<not> isl (fst (createEdge userId source target label authHeader newId now Rejected w))"
    by (simp add: createEdge_run Let_def)
  have node: "isl (fst (updateNode userId nodeId u authHeader Rejected w)) \<longleftrightarrow>
      nodes_id (nodes (graph_of w userId)) nodeId = None"
    by (cases "nodes_id (nodes (graph_of w userId)) nodeId") (simp_all add: updateNode_run Let_def)
  have upd: "isl (fst (updateEdge userId source target label authHeader now Rejected w)) \<longleftrightarrow>
      find (same_pair source target) (edges (graph_of w userId)) = None"
    by (cases "find (same_pair source target) (edges (graph_of w userId))")
       (simp_all add: updateEdge_run Let_def)
  have del: "isl (fst (deleteEdge userId source target authHeader now Rejected w)) \<longleftrightarrow>
      find (same_pair source target) (edges (graph_of w userId)) = None"
    by (cases "find (same_pair source target) (edges (graph_of w userId))")
       (simp_all add: deleteEdge_run Let_def)
  show ?thesis
    by (intro conjI same_outcome_createNode same_outcome_updateNode same_outcome_importNodes
        same_outcome_deleteNodes same_outcome_createEdge same_outcome_updateEdge
        same_outcome_deleteEdge same_outcome_clearGraph created stored cleared gone reported
        imp dels cre node upd del)
qed

theorem peer_failure_not_escalated_witness:
  "same_outcome (createEdge ''u1'' ''A'' ''B'' (LString ''x'') None ''e9'' 3 Rejected w_two)
     (createEdge ''u1'' ''A'' ''B'' (LString ''x'') None ''e9'' 3 (Resolved ()) w_two) \<and>
   fst (clearGraph ''u1'' None Rejected w_two) = Inr True \<and>
   kgraphs (snd (clearGraph ''u1'' None Rejected w_two)) ''u1'' = None \<and>
   fst (deleteEdge ''u1'' ''A'' ''B'' None 3 Rejected w_two) = Inr 1 \<and>
   map edge_id (edges (graph_of (snd (deleteEdge ''u1'' ''A'' ''B'' None 3 Rejected w_two)) ''u1'')) =
     [''e2'']"
proof -
  have "fst (deleteEdge ''u1'' ''A'' ''B'' None 3 Rejected w_two) = Inr 1"
    and "map edge_id
        (edges (graph_of (snd (deleteEdge ''u1'' ''A'' ''B'' None 3 Rejected w_two)) ''u1'')) =
      [''e2'']"
    by (simp_all add: deleteEdge_run Let_def w_two_def graph_of_def same_pair_def)
  with peer_failure_not_escalated [where userId = "''u1''" and w = w_two and authHeader = None
      and source = "''A''" and target = "''B''" and label = "LString ''x''" and newId = "''e9''"
      and now = 3]
  show ?thesis by simp
qed

section \<open>C6: recommendations are nodes of the current document\<close>

text \<open>
  Claim C6. Whatever the registry, the method and the strategy do, \<open>getRecommendations\<close>
  returns a sequence, and every element of it, converted to a string, is the identifier
  of a node of the user's document as the call leaves it. When the strategy returns an
  array, the result is that array filtered by membership in the document read after the
  strategy has run.
\<close>

theorem recommendations_are_current_nodes:
  assumes run: "getRecommendations strategies validMethods String userId method params w = (r, w')"
  shows "(\<exists>ids. r = Inr ids \<and>
            (\<forall>i \<in> set ids. String i \<in> node_id ` set (nodes (graph_of w' userId)))) \<and>
    (\<forall>strategy recs w1.
       strategies method = Some strategy \<longrightarrow> strategy userId params w = (Inr (Some recs), w1) \<longrightarrow>
       r = Inr (filter (\<lambda>i. String i \<in> node_id ` set (nodes (graph_of w1 userId))) recs) \<and>
       graph_of w' userId = graph_of w1 userId)"
proof (cases "strategies method")
  case None
  with run show ?thesis by (auto simp: getRecommendations_unknown)
next
  case (Some strategy)
  obtain res w1 where strat: "strategy userId params w = (res, w1)"
    by (cases "strategy userId params w")
  show ?thesis
  proof (cases res)
    case (Inl e)
    with run Some strat show ?thesis by (auto simp: getRecommendations_known)
  next
    case (Inr recommendations)
    show ?thesis
    proof (cases recommendations)
      case None
      with run Some strat Inr show ?thesis by (auto simp: getRecommendations_known)
    next
      case (Some recs)
      with run \<open>strategies method = Some strategy\<close> strat Inr show ?thesis
        by (auto simp: getRecommendations_known)
    qed
  qed
qed

theorem recommendations_are_current_nodes_witness:
  "fst (getRecommendations example_strategies [''old_ones'', ''synonyms''] (\<lambda>i. i) ''u1''
          ''old_ones'' () w_two) = Inr [''B'', ''A'']"
proof -
  let ?run = "getRecommendations example_strategies [''old_ones'', ''synonyms''] (\<lambda>i. i) ''u1''
      ''old_ones'' () w_two"
  have run: "?run = (fst ?run, snd ?run)" by simp
  have known: "example_strategies ''old_ones'' = Some (\<lambda>u p. preturn (Some [''B'', ''stale'', ''A'']))"
    by (simp add: example_strategies_def)
  have strat: "(\<lambda>u p. preturn (Some [''B'', ''stale'', ''A''])) ''u1'' () w_two =
      (Inr (Some [''B'', ''stale'', ''A'']), w_two)"
    by (simp add: preturn_def)
  from recommendations_are_current_nodes [OF run, THEN conjunct2, rule_format, OF known strat]
  show ?thesis by (simp add: w_two_def graph_of_def)
qed

section \<open>C7: recommendation lookups never throw, unknown methods are reported\<close>

text \<open>
  Claim C7. \<open>getRecommendations\<close> always returns a sequence: when the strategy throws, or
  returns no array, it returns the empty sequence and logs the error. A method name is
  unknown when it is not a key of the registry. The source tests what
  \<open>recommendationStrategies[method]\<close> resolves to: an unknown name that resolves to
  nothing gives the empty sequence and the logged error
  \<open>Invalid method: <method>. Valid methods are: <keys joined by ", ">\<close>, but an unknown
  name that resolves to an inherited member is not reported as unknown. The member is
  called as a strategy, and what is logged is the error of that call or of the use of
  its result.
\<close>

theorem getRecommendations_unknown_method_report:
  "(\<exists>ids. fst (getRecommendations (property own inherited) (map fst own) String userId method
               params w) = Inr ids) \<and>
   (method \<notin> set (map fst own) \<and> inherited method = None \<longrightarrow>
      getRecommendations (property own inherited) (map fst own) String userId method params w =
        (Inr [],
         w\<lparr>logged := logged w @
             [CaughtError GetRecommendations
                (Error (''Invalid method: '' @ method @ ''. Valid methods are: '' @
                        join '', '' (map fst own)))]\<rparr>)) \<and>
   (\<forall>member w1.
      method \<notin> set (map fst own) \<longrightarrow> inherited method = Some member \<longrightarrow>
      member userId params w = (Inr None, w1) \<longrightarrow>
      getRecommendations (property own inherited) (map fst own) String userId method params w =
        (Inr [],
         w1\<lparr>kgraphs := (kgraphs w1)(userId \<mapsto> graph_of w1 userId),
            logged := logged w1 @ [CaughtError GetRecommendations TypeError]\<rparr>)) \<and>
   (\<forall>member e w1.
      method \<notin> set (map fst own) \<longrightarrow> inherited method = Some member \<longrightarrow>
      member userId params w = (Inl e, w1) \<longrightarrow>
      getRecommendations (property own inherited) (map fst own) String userId method params w =
        (Inr [], w1\<lparr>logged := logged w1 @ [CaughtError GetRecommendations e]\<rparr>)) \<and>
   (\<forall>strategy e w1.
      map_of own method = Some strategy \<longrightarrow> strategy userId params w = (Inl e, w1) \<longrightarrow>
      getRecommendations (property own inherited) (map fst own) String userId method params w =
        (Inr [], w1\<lparr>logged := logged w1 @ [CaughtError GetRecommendations e]\<rparr>)) \<and>
   (\<forall>strategy w1.
      map_of own method = Some strategy \<longrightarrow> strategy userId params w = (Inr None, w1) \<longrightarrow>
      getRecommendations (property own inherited) (map fst own) String userId method params w =
        (Inr [],
         w1\<lparr>kgraphs := (kgraphs w1)(userId \<mapsto> graph_of w1 userId),
            logged := logged w1 @ [CaughtError GetRecommendations TypeError]\<rparr>))"
proof -
  let ?run = "getRecommendations (property own inherited) (map fst own) String userId method
      params w"
  have not_own: "map_of own method = None" if "method \<notin> set (map fst own)"
    using that by (simp add: map_of_eq_None_iff)
  have returns: "\<exists>ids. fst ?run = Inr ids"
  proof (cases "property own inherited method")
    case None
    then show ?thesis by (simp add: getRecommendations_unknown)
  next
    case (Some strategy)
    then show ?thesis
      by (simp add: getRecommendations_known split: prod.splits sum.splits option.splits)
  qed
  have reported: "?run =
        (Inr [],
         w\<lparr>logged := logged w @
             [CaughtError GetRecommendations
                (Error (''Invalid method: '' @ method @ ''. Valid methods are: '' @
                        join '', '' (map fst own)))]\<rparr>)"
    if "method \<notin> set (map fst own) \<and> inherited method = None"
  proof -
    from that not_own have "property own inherited method = None"
      by (simp add: property_def)
    then show ?thesis by (simp add: getRecommendations_unknown invalid_method_def)
  qed
  have inherited_null: "?run =
        (Inr [],
         w1\<lparr>kgraphs := (kgraphs w1)(userId \<mapsto> graph_of w1 userId),
            logged := logged w1 @ [CaughtError GetRecommendations TypeError]\<rparr>)"
    if "method \<notin> set (map fst own)" "inherited method = Some member"
      "member userId params w = (Inr None, w1)" for member w1
  proof -
    from that not_own have "property own inherited method = Some member"
      by (simp add: property_def)
    with that(3) show ?thesis by (simp add: getRecommendations_known)
  qed
  have inherited_throws: "?run =
        (Inr [], w1\<lparr>logged := logged w1 @ [CaughtError GetRecommendations e]\<rparr>)"
    if "method \<notin> set (map fst own)" "inherited method = Some member"
      "member userId params w = (Inl e, w1)" for member e w1
  proof -
    from that not_own have "property own inherited method = Some member"
      by (simp add: property_def)
    with that(3) show ?thesis by (simp add: getRecommendations_known)
  qed
  have own_throws: "?run =
        (Inr [], w1\<lparr>logged := logged w1 @ [CaughtError GetRecommendations e]\<rparr>)"
    if "map_of own method = Some strategy" "strategy userId params w = (Inl e, w1)"
    for strategy e w1
  proof -
    from that(1) have "property own inherited method = Some strategy"
      by (simp add: property_def)
    with that(2) show ?thesis by (simp add: getRecommendations_known)
  qed
  have own_null: "?run =
        (Inr [],
         w1\<lparr>kgraphs := (kgraphs w1)(userId \<mapsto> graph_of w1 userId),
            logged := logged w1 @ [CaughtError GetRecommendations TypeError]\<rparr>)"
    if "map_of own method = Some strategy" "strategy userId params w = (Inr None, w1)"
    for strategy w1
  proof -
    from that(1) have "property own inherited method = Some strategy"
      by (simp add: property_def)
    with that(2) show ?thesis by (simp add: getRecommendations_known)
  qed
  from returns reported inherited_null inherited_throws own_throws own_null
  show ?thesis by blast
qed

theorem getRecommendations_unknown_method_report_witness:
  "''constructor'' \<notin> set (map fst example_registry) \<and>
   getRecommendations (property example_registry example_prototype) (map fst example_registry)
     (\<lambda>i. i) ''u1'' ''constructor'' () w_two =
     (Inr [], w_two\<lparr>logged := [CaughtError GetRecommendations TypeError]\<rparr>) \<and>
   ''newest'' \<notin> set (map fst example_registry) \<and>
   getRecommendations (property example_registry example_prototype) (map fst example_registry)
     (\<lambda>i. i) ''u1'' ''newest'' () w_two =
     (Inr [],
      w_two\<lparr>logged :=
        [CaughtError GetRecommendations
           (Error ''Invalid method: newest. Valid methods are: old_ones, synonyms'')]\<rparr>) \<and>
   getRecommendations (property example_registry example_prototype) (map fst example_registry)
     (\<lambda>i. i) ''u1'' ''synonyms'' () w_two =
     (Inr [], w_two\<lparr>logged := [CaughtError GetRecommendations PeerError]\<rparr>)"
proof -
  have keys: "map fst example_registry = [''old_ones'', ''synonyms'']"
    by (simp add: example_registry_def)
  have unknown1: "''constructor'' \<notin> set (map fst example_registry)"
    and unknown2: "''newest'' \<notin> set (map fst example_registry)"
    by (simp_all add: keys)
  have member: "example_prototype ''constructor'' = Some (\<lambda>u p. preturn None)"
    and absent: "example_prototype ''newest'' = None"
    by (simp_all add: example_prototype_def)
  have called: "(\<lambda>u p. preturn None) ''u1'' () w_two = (Inr None, w_two)"
    by (simp add: preturn_def)
  have own: "map_of example_registry ''synonyms'' = Some (\<lambda>u p. pthrow PeerError)"
    by (simp add: example_registry_def)
  have thrown: "(\<lambda>u p. pthrow PeerError) ''u1'' () w_two = (Inl PeerError, w_two)"
    by (simp add: pthrow_def)
  have quiet: "logged w_two = []"
    and stored: "(kgraphs w_two)(''u1'' \<mapsto> graph_of w_two ''u1'') = kgraphs w_two"
    by (simp_all add: w_two_def graph_of_def)
  note inherited = getRecommendations_unknown_method_report
      [of example_registry example_prototype "\<lambda>i. i" "''u1''" "''constructor''" "()" w_two,
       THEN conjunct2, THEN conjunct2, THEN conjunct1, rule_format, OF unknown1 member called]
  note reported = getRecommendations_unknown_method_report
      [of example_registry example_prototype "\<lambda>i. i" "''u1''" "''newest''" "()" w_two,
       THEN conjunct2, THEN conjunct1, rule_format, OF conjI, OF unknown2 absent]
  note failing = getRecommendations_unknown_method_report
      [of example_registry example_prototype "\<lambda>i. i" "''u1''" "''synonyms''" "()" w_two,
       THEN conjunct2, THEN conjunct2, THEN conjunct2, THEN conjunct2, THEN conjunct1,
       rule_format, OF own thrown]
  from inherited reported failing unknown1 unknown2 show ?thesis
    by (simp add: keys quiet stored)
qed

section \<open>C8: the graph of one conversation\<close>

text \<open>
  Claim C8, as stated, fails for the empty string: \<open>getGraph\<close> tests the truth value of
  \<open>conversationId\<close>, so an empty identifier selects the full graph, nodes of other
  conversations included.
\<close>

theorem getGraph_empty_conversationId_counterexample:
  "fst (getGraph ''u1'' (Some '''') w_two) = Inr (Some ([node_A, node_B], [edge_AB, edge_BB])) \<and>
   node_source_conversation_id node_A \<noteq> Some '''' \<and>
   node_source_conversation_id node_B \<noteq> Some ''''"
  by (simp add: getGraph_run Let_def w_two_graph truthy_def) (simp add: node_A_def node_B_def)

text \<open>
  Claim C8, amended. For a conversation identifier that is given and not empty,
  \<open>getGraph\<close> returns exactly the nodes whose \<open>source_conversation_id\<close> is that
  identifier, and exactly the edges of which both the source and the target are the
  identifier of such a node, in their order. When the identifier is omitted (or empty)
  it returns all nodes and all edges. The stored document does not change.
\<close>

theorem getGraph_filters_by_conversation:
  "(convId \<noteq> None \<and> convId \<noteq> Some [] \<longrightarrow>
      fst (getGraph userId convId w) =
        Inr (Some
          (filter (\<lambda>n. node_source_conversation_id n = convId) (nodes (graph_of w userId)),
           filter (\<lambda>e. (\<exists>n \<in> set (nodes (graph_of w userId)).
                           node_source_conversation_id n = convId \<and> node_id n = edge_source e) \<and>
                        (\<exists>n \<in> set (nodes (graph_of w userId)).
                           node_source_conversation_id n = convId \<and> node_id n = edge_target e))
             (edges (graph_of w userId))))) \<and>
   (convId = None \<or> convId = Some [] \<longrightarrow>
      fst (getGraph userId convId w) =
        Inr (Some (nodes (graph_of w userId), edges (graph_of w userId)))) \<and>
   kgraphs (snd (getGraph userId convId w)) = (kgraphs w)(userId \<mapsto> graph_of w userId)"
proof -
  have given: "truthy convId \<longleftrightarrow> convId \<noteq> None \<and> convId \<noteq> Some []"
    by (cases convId) (simp_all add: truthy_def)
  let ?ns = "nodes (graph_of w userId)"
  let ?kept = "filter (\<lambda>n. node_source_conversation_id n = convId) ?ns"
  have member: "(i \<in> node_id ` set ?kept) \<longleftrightarrow>
      (\<exists>n \<in> set ?ns. node_source_conversation_id n = convId \<and> node_id n = i)" for i
    by auto
  have kept_edges:
    "filter (\<lambda>e. edge_source e \<in> node_id ` set ?kept \<and> edge_target e \<in> node_id ` set ?kept)
       (edges (graph_of w userId)) =
     filter (\<lambda>e. (\<exists>n \<in> set ?ns. node_source_conversation_id n = convId \<and> node_id n = edge_source e) \<and>
                  (\<exists>n \<in> set ?ns. node_source_conversation_id n = convId \<and> node_id n = edge_target e))
       (edges (graph_of w userId))"
    by (simp only: member)
  have filtered: "fst (getGraph userId convId w) =
      Inr (Some (?kept,
        filter (\<lambda>e. (\<exists>n \<in> set ?ns. node_source_conversation_id n = convId \<and> node_id n = edge_source e) \<and>
                     (\<exists>n \<in> set ?ns. node_source_conversation_id n = convId \<and> node_id n = edge_target e))
          (edges (graph_of w userId))))"
    if "convId \<noteq> None \<and> convId \<noteq> Some []"
    using that given kept_edges by (simp add: getGraph_run Let_def)
  have full: "fst (getGraph userId convId w) =
      Inr (Some (nodes (graph_of w userId), edges (graph_of w userId)))"
    if "convId = None \<or> convId = Some []"
    using that given by (auto simp: getGraph_run Let_def)
  have stored: "kgraphs (snd (getGraph userId convId w)) = (kgraphs w)(userId \<mapsto> graph_of w userId)"
    by (simp add: getGraph_run Let_def)
  from filtered full stored show ?thesis by blast
qed

theorem getGraph_filters_by_conversation_witness:
  "fst (getGraph ''u1'' (Some ''c2'') w_two) = Inr (Some ([node_B], [edge_BB])) \<and>
   fst (getGraph ''u1'' (Some ''c1'') w_two) = Inr (Some ([node_A], [])) \<and>
   fst (getGraph ''u1'' None w_two) = Inr (Some ([node_A, node_B], [edge_AB, edge_BB]))"
proof -
  note c2 = getGraph_filters_by_conversation [of "Some ''c2''" "''u1''" w_two, THEN conjunct1, rule_format]
  note c1 = getGraph_filters_by_conversation [of "Some ''c1''" "''u1''" w_two, THEN conjunct1, rule_format]
  note full = getGraph_filters_by_conversation [of None "''u1''" w_two, THEN conjunct2, THEN conjunct1,
      rule_format]
  have "fst (getGraph ''u1'' (Some ''c2'') w_two) = Inr (Some ([node_B], [edge_BB]))"
    using c2 by (simp add: w_two_graph) (simp add: node_A_def node_B_def edge_AB_def edge_BB_def)
  moreover have "fst (getGraph ''u1'' (Some ''c1'') w_two) = Inr (Some ([node_A], []))"
    using c1 by (simp add: w_two_graph) (simp add: node_A_def node_B_def edge_AB_def edge_BB_def)
  moreover have "fst (getGraph ''u1'' None w_two) = Inr (Some ([node_A, node_B], [edge_AB, edge_BB]))"
    using full by (simp add: w_two_graph)
  ultimately show ?thesis by simp
qed

section \<open>C9: the layout is stored scaled by 250\<close>

text \<open>
  Claim C9. When the peer answers with a layout, \<open>calculateCluster\<close> returns that answer
  unchanged. Every node that \<open>graph.nodes.id\<close> can find (the first of its identifier,
  hence every node when identifiers are unique) gets the coordinates of the last item
  with its identifier, each multiplied by 250; a node with no item keeps its
  coordinates. An item whose identifier is not in the document is skipped with a
  warning, and the items after it are still applied. Edges do not change.
\<close>

theorem calculateCluster_scales_found_nodes:
  assumes run: "calculateCluster userId authHeader (Resolved umapData) w = (r, w')"
  shows "r = Inr umapData \<and>
    kgraphs w' userId = Some (graph_of w' userId) \<and>
    length (nodes (graph_of w' userId)) = length (nodes (graph_of w userId)) \<and>
    (\<forall>k<length (nodes (graph_of w userId)).
       nodes (graph_of w' userId) ! k =
         (if first_with_id (nodes (graph_of w userId)) k
          then placed umapData (nodes (graph_of w userId) ! k)
          else nodes (graph_of w userId) ! k)) \<and>
    (distinct (map node_id (nodes (graph_of w userId))) \<longrightarrow>
       nodes (graph_of w' userId) = map (placed umapData) (nodes (graph_of w userId))) \<and>
    (\<forall>n. placed umapData n =
       (case find (\<lambda>item. item_id item = node_id n) (rev umapData) of
          None \<Rightarrow> n
        | Some item \<Rightarrow> n\<lparr>node_x := item_x item * 250, node_y := item_y item * 250\<rparr>)) \<and>
    edges (graph_of w' userId) = edges (graph_of w userId) \<and>
    logged w' =
      logged w @
      map (\<lambda>item. NodeNotFound userId (item_id item))
        (filter (\<lambda>item. item_id item \<notin> node_id ` set (nodes (graph_of w userId))) umapData)"
proof -
  let ?ns = "nodes (graph_of w userId)"
  from run have r: "r = fst (calculateCluster userId authHeader (Resolved umapData) w)"
    and w': "w' = snd (calculateCluster userId authHeader (Resolved umapData) w)"
    by simp_all
  have nodes': "nodes (graph_of w' userId) = place umapData ?ns"
    and edges': "edges (graph_of w' userId) = edges (graph_of w userId)"
    and result: "r = Inr umapData"
    by (simp_all add: r w' calculateCluster_run Let_def)
  have warned: "logged w' =
      logged w @
      map (\<lambda>item. NodeNotFound userId (item_id item))
        (filter (\<lambda>item. item_id item \<notin> node_id ` set ?ns) umapData)"
    by (simp add: w' calculateCluster_run Let_def nodes_id_None_iff)
  have each: "\<forall>k<length ?ns.
      nodes (graph_of w' userId) ! k =
        (if first_with_id ?ns k then placed umapData (?ns ! k) else ?ns ! k)"
    by (simp add: nodes' place_at)
  have all: "nodes (graph_of w' userId) = map (placed umapData) ?ns"
    if "distinct (map node_id ?ns)"
    using that by (simp add: nodes' place_distinct)
  have scale: "\<forall>n. placed umapData n =
       (case find (\<lambda>item. item_id item = node_id n) (rev umapData) of
          None \<Rightarrow> n
        | Some item \<Rightarrow> n\<lparr>node_x := item_x item * 250, node_y := item_y item * 250\<rparr>)"
    by (simp add: placed_def last_item_def scaled_def split: option.splits)
  have len: "length (nodes (graph_of w' userId)) = length ?ns"
    by (simp add: nodes' length_place)
  have stored: "kgraphs w' userId = Some (graph_of w' userId)"
    by (simp add: w' calculateCluster_run Let_def)
  from result stored len each all scale edges' warned show ?thesis by blast
qed

theorem calculateCluster_scales_found_nodes_witness:
  "fst (calculateCluster ''u1'' None
          (Resolved [\<lparr>item_id = ''Z'', item_x = 1, item_y = 1\<rparr>,
                     \<lparr>item_id = ''B'', item_x = 2 / 5, item_y = - (1 / 5)\<rparr>]) w_two) =
     Inr [\<lparr>item_id = ''Z'', item_x = 1, item_y = 1\<rparr>,
          \<lparr>item_id = ''B'', item_x = 2 / 5, item_y = - (1 / 5)\<rparr>] \<and>
   nodes (graph_of
      (snd (calculateCluster ''u1'' None
              (Resolved [\<lparr>item_id = ''Z'', item_x = 1, item_y = 1\<rparr>,
                         \<lparr>item_id = ''B'', item_x = 2 / 5, item_y = - (1 / 5)\<rparr>]) w_two)) ''u1'') =
     [node_A, node_B\<lparr>node_x := 100, node_y := - 50\<rparr>] \<and>
   logged
     (snd (calculateCluster ''u1'' None
             (Resolved [\<lparr>item_id = ''Z'', item_x = 1, item_y = 1\<rparr>,
                        \<lparr>item_id = ''B'', item_x = 2 / 5, item_y = - (1 / 5)\<rparr>]) w_two)) =
     [NodeNotFound ''u1'' ''Z'']"
proof -
  let ?items = "[\<lparr>item_id = ''Z'', item_x = 1, item_y = 1\<rparr>,
      \<lparr>item_id = ''B'', item_x = 2 / 5, item_y = - (1 / 5)\<rparr>]"
  let ?run = "calculateCluster ''u1'' None (Resolved ?items) w_two"
  have run: "?run = (fst ?run, snd ?run)" by simp
  have ids: "distinct (map node_id (nodes (graph_of w_two ''u1'')))"
    by (simp add: w_two_graph node_A_def node_B_def)
  have nolog: "logged w_two = []" by (simp add: w_two_def)
  note inst = calculateCluster_scales_found_nodes [OF run]
  from inst ids have placed_all:
    "nodes (graph_of (snd ?run) ''u1'') = map (placed ?items) (nodes (graph_of w_two ''u1''))"
    by blast
  from inst have scale: "placed ?items n =
       (case find (\<lambda>item. item_id item = node_id n) (rev ?items) of
          None \<Rightarrow> n
        | Some item \<Rightarrow> n\<lparr>node_x := item_x item * 250, node_y := item_y item * 250\<rparr>)" for n
    by blast
  from inst have result: "fst ?run = Inr ?items" by blast
  from inst have warned: "logged (snd ?run) =
      logged w_two @
      map (\<lambda>item. NodeNotFound ''u1'' (item_id item))
        (filter (\<lambda>item. item_id item \<notin> node_id ` set (nodes (graph_of w_two ''u1''))) ?items)"
    by blast
  have "nodes (graph_of (snd ?run) ''u1'') = [node_A, node_B\<lparr>node_x := 100, node_y := - 50\<rparr>]"
    unfolding placed_all by (simp add: scale w_two_graph) (simp add: node_A_def node_B_def)
  moreover have "logged (snd ?run) = [NodeNotFound ''u1'' ''Z'']"
    unfolding warned by (simp add: nolog w_two_graph node_A_def node_B_def)
  ultimately show ?thesis using result by simp
qed

section \<open>C10: the timeout of the requests to the peer\<close>

text \<open>
  Claim C10. Every request that the eight mutations send to the peer carries the timeout
  of 15000 milliseconds (\<open>deleteNodes\<close> sends none when the document store refuses an
  identifier); the request of \<open>calculateCluster\<close> to \<open>calculate-umap\<close> is sent with the
  headers only and carries no timeout.
\<close>

theorem calculateCluster_request_has_no_timeout:
  "calls (snd (calculateCluster userId authHeader umap w)) =
     calls w @
     [\<lparr>url = CalculateUmap, body = UserPayload userId, timeout = None,
       authorization = headers authHeader\<rparr>] \<and>
   map timeout (calls (snd (createNode userId d authHeader newId peer w))) =
     map timeout (calls w) @ [Some 15000] \<and>
   map timeout (calls (snd (importNodes userId nodeIds authHeader newIds peer w))) =
     map timeout (calls w) @ [Some 15000] \<and>
   map timeout (calls (snd (deleteNodes ObjectId castObjectId userId nodeIds authHeader peer w))) =
     map timeout (calls w) @
     (if castable ObjectId castObjectId nodeIds then [Some 15000] else []) \<and>
   map timeout (calls (snd (createEdge userId source target label authHeader newId now peer w))) =
     map timeout (calls w) @ [Some 15000] \<and>
   map timeout (calls (snd (clearGraph userId authHeader peer w))) =
     map timeout (calls w) @ [Some 15000] \<and>
   map timeout (calls (snd (updateNode userId nodeId u authHeader peer w))) =
     map timeout (calls w) @
     (if nodes_id (nodes (graph_of w userId)) nodeId \<noteq> None \<and> u_content u \<noteq> None
      then [Some 15000] else []) \<and>
   map timeout (calls (snd (updateEdge userId source target label authHeader now peer w))) =
     map timeout (calls w) @
     (if find (same_pair source target) (edges (graph_of w userId)) \<noteq> None
      then [Some 15000] else []) \<and>
   map timeout (calls (snd (deleteEdge userId source target authHeader now peer w))) =
     map timeout (calls w) @
     (if find (same_pair source target) (edges (graph_of w userId)) \<noteq> None
      then [Some 15000] else [])"
proof -
  have umap_call: "calls (snd (calculateCluster userId authHeader umap w)) =
     calls w @
     [\<lparr>url = CalculateUmap, body = UserPayload userId, timeout = None,
       authorization = headers authHeader\<rparr>]"
    by (cases umap) (simp_all add: calculateCluster_run Let_def)
  have node_calls:
    "map timeout (calls (snd (createNode userId d authHeader newId peer w))) =
       map timeout (calls w) @ [Some 15000]"
    "map timeout (calls (snd (importNodes userId nodeIds authHeader newIds peer w))) =
       map timeout (calls w) @ [Some 15000]"
    by (simp_all add: createNode_run importNodes_run Let_def embed_node_call_def)
  have delete_nodes:
    "map timeout (calls (snd (deleteNodes ObjectId castObjectId userId nodeIds authHeader peer w))) =
       map timeout (calls w) @
       (if castable ObjectId castObjectId nodeIds then [Some 15000] else [])"
    using cast_ids_castable [of castObjectId ObjectId nodeIds]
    by (cases "cast_ids castObjectId (convertedIds ObjectId nodeIds)")
       (simp_all add: deleteNodes_run Let_def embed_delete_call_def)
  have edge_calls:
    "map timeout (calls (snd (createEdge userId source target label authHeader newId now peer w))) =
       map timeout (calls w) @ [Some 15000]"
    "map timeout (calls (snd (clearGraph userId authHeader peer w))) =
       map timeout (calls w) @ [Some 15000]"
    by (simp_all add: createEdge_run clearGraph_run Let_def embed_edge_call_def)
  have update_node:
    "map timeout (calls (snd (updateNode userId nodeId u authHeader peer w))) =
       map timeout (calls w) @
       (if nodes_id (nodes (graph_of w userId)) nodeId \<noteq> None \<and> u_content u \<noteq> None
        then [Some 15000] else [])"
    by (cases "nodes_id (nodes (graph_of w userId)) nodeId")
       (simp_all add: updateNode_run Let_def embed_node_call_def)
  have update_edge:
    "map timeout (calls (snd (updateEdge userId source target label authHeader now peer w))) =
       map timeout (calls w) @
       (if find (same_pair source target) (edges (graph_of w userId)) \<noteq> None
        then [Some 15000] else [])"
    by (cases "find (same_pair source target) (edges (graph_of w userId))")
       (simp_all add: updateEdge_run Let_def embed_edge_call_def)
  have delete_edge:
    "map timeout (calls (snd (deleteEdge userId source target authHeader now peer w))) =
       map timeout (calls w) @
       (if find (same_pair source target) (edges (graph_of w userId)) \<noteq> None
        then [Some 15000] else [])"
    by (cases "find (same_pair source target) (edges (graph_of w userId))")
       (simp_all add: deleteEdge_run Let_def embed_delete_call_def)
  show ?thesis
    by (intro conjI umap_call node_calls delete_nodes edge_calls update_node update_edge
        delete_edge)
qed

theorem calculateCluster_request_has_no_timeout_witness:
  "map timeout (calls (snd (calculateCluster ''u1'' None (Resolved []) w_two))) = [None] \<and>
   map timeout (calls (snd (clearGraph ''u1'' None (Resolved ()) w_two))) = [Some 15000]"
proof -
  have nocalls: "calls w_two = []" by (simp add: w_two_def)
  from calculateCluster_request_has_no_timeout [where userId = "''u1''" and authHeader = None
      and umap = "Resolved []" and w = w_two and peer = "Resolved ()"] nocalls
  show ?thesis by simp
qed

end
